theory Spec2Isabelle
  imports Complex_Main "HOL-Library.Word" "HOL-Library.Log_Nat"
begin

unbundle bit_operations_syntax

section \<open>Numbers\<close>

text \<open>
  A JavaScript \<open>number\<close> is modelled by a real: arithmetic is exact. Where a computation
  of the source leaves the finite reals (a division by zero, a power outside its domain,
  an \<open>undefined\<close> read from an array that reaches arithmetic) the model returns \<open>None\<close>,
  which stands for a value that is \<open>NaN\<close>, \<open>Infinity\<close> or \<open>-Infinity\<close>; such a value is
  not followed further.
\<close>

section \<open>math.ts\<close>

text \<open>
  The shapes \<open>{x, y}\<close> (\<open>Chromaticity\<close> of rgb.ts) and \<open>{x, y, z}\<close> (\<open>Vector3\<close>,
  \<open>XyzColor\<close>, \<open>Xyz\<close>) are structural types of the source: the second extends the first,
  as in \<open>{ ...r, z: 1 - r.x - r.y }\<close>.
\<close>

record Chromaticity =
  x :: real
  y :: real

record Vector3 = Chromaticity +
  z :: real

type_synonym XyzColor = Vector3
type_synonym Xyz = Vector3

record Matrix3x3 =
  m00 :: real  m01 :: real  m02 :: real
  m10 :: real  m11 :: real  m12 :: real
  m20 :: real  m21 :: real  m22 :: real

definition det3 :: "Matrix3x3 \<Rightarrow> real" where
  "det3 m =
     m00 m * (m11 m * m22 m - m21 m * m12 m) -
     m01 m * (m10 m * m22 m - m12 m * m20 m) +
     m02 m * (m10 m * m21 m - m11 m * m20 m)"

text \<open>
  \<open>invertMat\<close>: \<open>invdet = 1 / det\<close>. With \<open>det = 0\<close> JavaScript's \<open>invdet\<close> is infinite and
  every entry of the result is infinite or \<open>NaN\<close>: the model returns \<open>None\<close>.
\<close>

definition invertMat :: "Matrix3x3 \<Rightarrow> Matrix3x3 option" where
  "invertMat m =
     (let det = det3 m in
      if det = 0 then None
      else let invdet = 1 / det in Some \<lparr>
        m00 =   (m11 m * m22 m - m12 m * m21 m) * invdet,
        m01 = - (m01 m * m22 m - m02 m * m21 m) * invdet,
        m02 =   (m01 m * m12 m - m02 m * m11 m) * invdet,
        m10 = - (m10 m * m22 m - m12 m * m20 m) * invdet,
        m11 =   (m00 m * m22 m - m02 m * m20 m) * invdet,
        m12 = - (m00 m * m12 m - m02 m * m10 m) * invdet,
        m20 =   (m10 m * m21 m - m11 m * m20 m) * invdet,
        m21 = - (m00 m * m21 m - m01 m * m20 m) * invdet,
        m22 =   (m00 m * m11 m - m01 m * m10 m) * invdet \<rparr>)"

definition matMulMV :: "Matrix3x3 \<Rightarrow> real \<Rightarrow> real \<Rightarrow> real \<Rightarrow> Vector3" where
  "matMulMV m vx vy vz = \<lparr>
     x = m00 m * vx + m01 m * vy + m02 m * vz,
     y = m10 m * vx + m11 m * vy + m12 m * vz,
     z = m20 m * vx + m21 m * vy + m22 m * vz \<rparr>"

definition clamp01 :: "real \<Rightarrow> real" where
  "clamp01 v = (let v1 = (if v < 0 then 0 else v) in if v1 > 1 then 1 else v1)"

section \<open>curve.ts\<close>

text \<open>
  The three variants of the union type \<open>Curve\<close>. The final \<open>throw\<close> of \<open>apply\<close> and
  \<open>applyInverse\<close> is reached only by a value outside that type.
\<close>

datatype Curve = Identity | Gamma (gamma: real) | Lut (values_of: "real list")

text \<open>
  The operator \<open>**\<close> on finite reals. \<open>b ** 0\<close> is 1 for every \<open>b\<close>; a negative base has a
  real power for an integral exponent only (\<open>NaN\<close> otherwise); \<open>0 ** e\<close> with \<open>e < 0\<close> is
  \<open>Infinity\<close>.
\<close>

definition pow :: "real \<Rightarrow> real \<Rightarrow> real option" where
  "pow b e =
     (if e = 0 then Some 1
      else if 0 < b then Some (b powr e)
      else if b = 0 then (if 0 < e then Some 0 else None)
      else if e \<in> \<int> then Some (b powi \<lfloor>e\<rfloor>)
      else None)"

text \<open>An array read \<open>a[i]\<close>: \<open>None\<close> is \<open>undefined\<close>.\<close>

definition index :: "'a list \<Rightarrow> int \<Rightarrow> 'a option" where
  "index a i = (if 0 \<le> i \<and> i < int (length a) then Some (a ! nat i) else None)"

text \<open>\<open>Math.round\<close>: the nearest integer, a tie going up.\<close>

definition Math_round :: "real \<Rightarrow> int" where
  "Math_round v = \<lfloor>v + 1 / 2\<rfloor>"

text \<open>\<open>apply\<close> of the source (the name is a keyword of Isar, hence \<open>apply_curve\<close>).\<close>

definition apply_curve :: "Curve \<Rightarrow> real \<Rightarrow> real option" where
  "apply_curve curve v =
     (case curve of
        Identity \<Rightarrow> Some v
      | Gamma g \<Rightarrow> pow v g
      | Lut vs \<Rightarrow> index vs (Math_round ((real (length vs) - 1) * v)))"

text \<open>
  The loop of \<open>binarySearch\<close>, on its two variables. \<open>(low + high) >> 1\<close> is the floor of
  the half as long as the sum is below \<open>2 ^ 31\<close>, which it is for every array of fewer
  than \<open>2 ^ 30\<close> elements; the model is of those. A comparison with \<open>undefined\<close> is false
  both ways, so the loop returns \<open>mid\<close> there.
\<close>

function binarySearch_loop :: "real list \<Rightarrow> real \<Rightarrow> int \<Rightarrow> int \<Rightarrow> int" where
  "binarySearch_loop array v low high =
     (if low \<le> high then
        let mid = (low + high) div 2 in
        (case index array mid of
           None \<Rightarrow> mid
         | Some a \<Rightarrow>
             if a < v then binarySearch_loop array v (mid + 1) high
             else if a > v then binarySearch_loop array v low (mid - 1)
             else mid)
      else - (low + 1))"
  by pat_completeness auto
termination
  by (relation "measure (\<lambda>(array, v, low, high). nat (high - low + 1))") auto

declare binarySearch_loop.simps [simp del]

definition binarySearch :: "real list \<Rightarrow> real \<Rightarrow> int" where
  "binarySearch array v = binarySearch_loop array v 0 (int (length array) - 1)"

text \<open>
  \<open>applyInverse\<close>. For a gamma curve the exponent is \<open>1 / gamma\<close>: with \<open>gamma = 0\<close> it is
  \<open>Infinity\<close>, and \<open>v ** Infinity\<close> is 0 for \<open>\<bar>v\<bar> < 1\<close> and not finite otherwise. For a
  table the quotient \<open>insert / (length - 1)\<close> is not finite for a table of one value.
\<close>

definition applyInverse :: "Curve \<Rightarrow> real \<Rightarrow> real option" where
  "applyInverse curve v =
     (case curve of
        Identity \<Rightarrow> Some v
      | Gamma g \<Rightarrow>
          if g = 0 then (if \<bar>v\<bar> < 1 then Some 0 else None) else pow v (1 / g)
      | Lut vs \<Rightarrow>
          let search = binarySearch vs v;
              insert = (if search \<ge> 0 then search else - search - 1)
          in if length vs = 1 then None
             else Some (real_of_int insert / (real (length vs) - 1)))"

section \<open>rgb.ts\<close>

record RgbColor =
  r :: real
  g :: real
  b :: real

record RgbPrimary =
  chromaticity :: Chromaticity
  trc :: Curve

record RgbPrimaries =
  r :: RgbPrimary
  g :: RgbPrimary
  b :: RgbPrimary

record WhitePoint =
  chromaticity :: Chromaticity
  luminance :: real

record RgbProfileInfo =
  primaries :: RgbPrimaries
  whitePoint :: WhitePoint

text \<open>A matrix that is \<open>None\<close> is one whose entries are all infinite or \<open>NaN\<close>.\<close>

record RgbMatrices =
  xyz :: "Matrix3x3 option"
  rgb :: "Matrix3x3 option"

definition calcMatrices ::
  "Chromaticity \<Rightarrow> Chromaticity \<Rightarrow> Chromaticity \<Rightarrow> XyzColor \<Rightarrow> RgbMatrices" where
  "calcMatrices cr cg cb w =
     (let Rxyz = \<lparr>x = x cr, y = y cr, z = 1 - x cr - y cr\<rparr>;
          Gxyz = \<lparr>x = x cg, y = y cg, z = 1 - x cg - y cg\<rparr>;
          Bxyz = \<lparr>x = x cb, y = y cb, z = 1 - x cb - y cb\<rparr>
      in case invertMat \<lparr>
            m00 = x Rxyz, m01 = x Gxyz, m02 = x Bxyz,
            m10 = y Rxyz, m11 = y Gxyz, m12 = y Bxyz,
            m20 = z Rxyz, m21 = z Gxyz, m22 = z Bxyz \<rparr> of
           None \<Rightarrow> \<lparr>xyz = None, rgb = None\<rparr>
         | Some Si \<Rightarrow>
             let s = matMulMV Si (x w) (y w) (z w);
                 sumRXYZ = x s; sumGXYZ = y s; sumBXYZ = z s;
                 M = \<lparr>
                   m00 = x Rxyz * sumRXYZ, m01 = x Gxyz * sumGXYZ, m02 = x Bxyz * sumBXYZ,
                   m10 = y Rxyz * sumRXYZ, m11 = y Gxyz * sumGXYZ, m12 = y Bxyz * sumBXYZ,
                   m20 = z Rxyz * sumRXYZ, m21 = z Gxyz * sumGXYZ, m22 = z Bxyz * sumBXYZ \<rparr>
             in \<lparr>xyz = Some M, rgb = invertMat M\<rparr>)"

record RgbConversionInfo =
  sdr :: RgbMatrices
  hdr :: RgbMatrices

definition calcConversionInfo ::
  "Chromaticity \<Rightarrow> Chromaticity \<Rightarrow> Chromaticity \<Rightarrow> WhitePoint \<Rightarrow> RgbConversionInfo" where
  "calcConversionInfo cr cg cb w =
     (let sdrWhitePoint = \<lparr>
            x = x (WhitePoint.chromaticity w),
            y = y (WhitePoint.chromaticity w),
            z = 1 - x (WhitePoint.chromaticity w) - y (WhitePoint.chromaticity w) \<rparr>;
          hdrWhitePoint = \<lparr>
            x = x sdrWhitePoint * luminance w,
            y = y sdrWhitePoint * luminance w,
            z = z sdrWhitePoint * luminance w \<rparr>
      in \<lparr>sdr = calcMatrices cr cg cb sdrWhitePoint,
          hdr = calcMatrices cr cg cb hdrWhitePoint\<rparr>)"

text \<open>The class \<open>RgbProfile\<close>: its two fields, its constructor and \<open>toXyz\<close>.\<close>

record RgbProfile =
  serializable :: RgbProfileInfo
  conversion :: RgbConversionInfo

definition new_RgbProfile :: "RgbProfileInfo \<Rightarrow> RgbProfile" where
  "new_RgbProfile info = \<lparr>
     serializable = info,
     conversion = calcConversionInfo
       (RgbPrimary.chromaticity (RgbPrimaries.r (primaries info)))
       (RgbPrimary.chromaticity (RgbPrimaries.g (primaries info)))
       (RgbPrimary.chromaticity (RgbPrimaries.b (primaries info)))
       (whitePoint info) \<rparr>"

text \<open>
  A parameter \<open>hdr: boolean = false\<close>: \<open>None\<close> is the argument left out. A product
  with a value that is not finite is not finite, so \<open>matMulMV\<close> of such a matrix or
  such a component has no finite component.
\<close>

definition hdr_or_default :: "bool option \<Rightarrow> bool" where
  "hdr_or_default h = (case h of None \<Rightarrow> False | Some f \<Rightarrow> f)"

definition RgbProfile_toXyz :: "RgbProfile \<Rightarrow> RgbColor \<Rightarrow> bool option \<Rightarrow> XyzColor option" where
  "RgbProfile_toXyz p c h =
     (let ps = primaries (serializable p);
          r1 = applyInverse (trc (RgbPrimaries.r ps)) (clamp01 (RgbColor.r c));
          g1 = applyInverse (trc (RgbPrimaries.g ps)) (clamp01 (RgbColor.g c));
          b1 = applyInverse (trc (RgbPrimaries.b ps)) (clamp01 (RgbColor.b c));
          matrices = (if hdr_or_default h then hdr (conversion p) else sdr (conversion p))
      in case (xyz matrices, r1, g1, b1) of
           (Some M, Some r2, Some g2, Some b2) \<Rightarrow> Some (matMulMV M r2 g2 b2)
         | _ \<Rightarrow> None)"

definition srgb :: RgbProfileInfo where
  "srgb = \<lparr>
     primaries = \<lparr>
       r = \<lparr>RgbPrimary.chromaticity = \<lparr>x = 64 / 100, y = 33 / 100\<rparr>, trc = Gamma (22 / 10)\<rparr>,
       g = \<lparr>RgbPrimary.chromaticity = \<lparr>x = 30 / 100, y = 60 / 100\<rparr>, trc = Gamma (22 / 10)\<rparr>,
       b = \<lparr>RgbPrimary.chromaticity = \<lparr>x = 15 / 100, y = 6 / 100\<rparr>, trc = Gamma (22 / 10)\<rparr> \<rparr>,
     whitePoint = \<lparr>chromaticity = \<lparr>x = 3127 / 10000, y = 3290 / 10000\<rparr>, luminance = 80\<rparr> \<rparr>"

section \<open>icc/datatype.ts\<close>

text \<open>
  The bitwise operators of JavaScript take the integer modulo \<open>2 ^ 32\<close> and give a signed
  32-bit result: \<open>&\<close>, \<open>|\<close>, \<open>~\<close>, \<open><<\<close> and the arithmetic \<open>>>\<close>. Their operands here are
  integers, and the shift counts are below 32.
\<close>

definition band :: "int \<Rightarrow> int \<Rightarrow> int" where
  "band a c = sint ((word_of_int a :: 32 word) AND word_of_int c)"

definition bor :: "int \<Rightarrow> int \<Rightarrow> int" where
  "bor a c = sint ((word_of_int a :: 32 word) OR word_of_int c)"

definition bnot :: "int \<Rightarrow> int" where
  "bnot a = sint (NOT (word_of_int a :: 32 word))"

definition shl :: "int \<Rightarrow> nat \<Rightarrow> int" where
  "shl a n = sint (push_bit n (word_of_int a :: 32 word))"

definition sar :: "int \<Rightarrow> nat \<Rightarrow> int" where
  "sar a n = sint (signed_drop_bit n (word_of_int a :: 32 word))"

text \<open>
  A \<open>Uint8Array\<close> is a list of bytes. A read outside it is \<open>undefined\<close>, which a bitwise
  operator takes as 0; a write outside it is dropped; a write stores the value modulo 256.
\<close>

type_synonym buffer = "8 word list"

definition byte :: "buffer \<Rightarrow> int \<Rightarrow> int" where
  "byte buf i = (case index buf i of None \<Rightarrow> 0 | Some v \<Rightarrow> uint v)"

definition store :: "buffer \<Rightarrow> int \<Rightarrow> int \<Rightarrow> buffer" where
  "store buf i v = (if 0 \<le> i \<and> i < int (length buf) then buf[nat i := word_of_int v] else buf)"

text \<open>\<open>subarray(begin, end)\<close>: a negative position counts from the end, and both are clamped.\<close>

definition subarray :: "'a list \<Rightarrow> int \<Rightarrow> int \<Rightarrow> 'a list" where
  "subarray a bgn fin =
     (let len = int (length a);
          rel = (\<lambda>i. if i < 0 then max (len + i) 0 else min i len)
      in take (nat (rel fin - rel bgn)) (drop (nat (rel bgn)) a))"

definition getUint16 :: "buffer \<Rightarrow> int \<Rightarrow> int" where
  "getUint16 buf off = bor (shl (byte buf (off + 0)) 8) (byte buf (off + 1))"

definition getUint32 :: "buffer \<Rightarrow> int \<Rightarrow> int" where
  "getUint32 buf off =
     bor (bor (bor (shl (byte buf (off + 0)) 24) (shl (byte buf (off + 1)) 16))
              (shl (byte buf (off + 2)) 8))
         (byte buf (off + 3))"

definition setUint32 :: "buffer \<Rightarrow> int \<Rightarrow> int \<Rightarrow> buffer" where
  "setUint32 buf v off =
     (let b0 = store buf (off + 0) (sar (band v 0xFF000000) 24);
          b1 = store b0 (off + 1) (sar (band v 0x00FF0000) 16);
          b2 = store b1 (off + 2) (sar (band v 0x0000FF00) 8)
      in store b2 (off + 3) (band v 0x000000FF))"

datatype error =
    TypeError string  \<comment> \<open>a property (named here) read from \<open>undefined\<close>, or \<open>BigInt(undefined)\<close>\<close>
  | RangeError        \<comment> \<open>a typed array of negative length\<close>
  | Error string      \<comment> \<open>\<open>throw new Error(message)\<close>\<close>

text \<open>
  \<open>getUint64\<close> works on \<open>BigInt\<close>s, which are unbounded; \<open>BigInt(undefined)\<close> throws. Its
  eight terms are taken from left to right: the byte at \<open>offset + 0\<close> shifted by 56, down
  to the byte at \<open>offset + 7\<close> unshifted.
\<close>

definition BigInt :: "8 word option \<Rightarrow> error + int" where
  "BigInt v = (case v of None \<Rightarrow> Inl (TypeError ''BigInt'') | Some w \<Rightarrow> Inr (uint w))"

fun getUint64_from :: "buffer \<Rightarrow> int \<Rightarrow> nat \<Rightarrow> int \<Rightarrow> error + int" where
  "getUint64_from buf off 0 acc = Inr acc"
| "getUint64_from buf off (Suc n) acc =
     (case BigInt (index buf (off + 7 - int n)) of
        Inl e \<Rightarrow> Inl e
      | Inr v \<Rightarrow> getUint64_from buf off n (acc OR push_bit (8 * n) v))"

definition getUint64 :: "buffer \<Rightarrow> int \<Rightarrow> error + int" where
  "getUint64 buf off = getUint64_from buf off 8 0"

definition getS15Fixed16 :: "buffer \<Rightarrow> int \<Rightarrow> real" where
  "getS15Fixed16 buf off =
     (let raw = getUint32 buf off;
          neg = (band raw 0x80000000 \<noteq> 0);
          int' = sar (band raw 0x7FFF0000) 16;
          frac = band raw 0x0000FFFF
      in real_of_int (if neg then bnot (band (bnot int') 0x7FFF) else int')
         + real_of_int frac / 0x10000)"

definition setS15Fixed16 :: "buffer \<Rightarrow> real \<Rightarrow> int \<Rightarrow> buffer" where
  "setS15Fixed16 buf v off =
     (let sint' = \<lfloor>v\<rfloor>;
          frac = \<lfloor>(v - real_of_int sint') * 0x10000\<rfloor>;
          raw = bor (shl (band sint' 0xFFFF) 16) frac
      in setUint32 buf raw off)"

definition getU16Fixed16 :: "buffer \<Rightarrow> int \<Rightarrow> real" where
  "getU16Fixed16 buf off =
     (let raw = getUint32 buf off;
          int' = sar (band raw 0xFFFF0000) 16;
          frac = band raw 0x0000FFFF
      in real_of_int int' + real_of_int frac / 0x10000)"

text \<open>A \<open>Date\<close> is kept as the six arguments of its constructor (local time).\<close>

datatype Date = Date int int int int int int

definition getDatetime :: "buffer \<Rightarrow> int \<Rightarrow> Date" where
  "getDatetime buf off =
     (let year = getUint16 buf (off + 0);
          month = getUint16 buf (off + 2);
          day = getUint16 buf (off + 4);
          hours = getUint16 buf (off + 6);
          minutes = getUint16 buf (off + 8);
          seconds = getUint16 buf (off + 10)
      in Date year (month - 1) day hours minutes seconds)"

definition getXyz :: "buffer \<Rightarrow> int \<Rightarrow> Xyz" where
  "getXyz buf off = \<lparr>
     x = getS15Fixed16 buf (off + 0),
     y = getS15Fixed16 buf (off + 4),
     z = getS15Fixed16 buf (off + 8) \<rparr>"

text \<open>\<open>String.fromCharCode\<close> of bytes: one character for each, of that code.\<close>

definition getSignature :: "buffer \<Rightarrow> int \<Rightarrow> string" where
  "getSignature buf off = map (\<lambda>c. char_of (uint c)) (subarray buf off (off + 4))"

section \<open>icc/header.ts\<close>

text \<open>
  \<open>Number\<close> of a non-negative \<open>BigInt\<close>: the nearest double, a tie going to the even
  significand of 53 bits. It is the integer itself below \<open>2 ^ 53\<close>.
\<close>

definition Number :: "int \<Rightarrow> int" where
  "Number v =
     (if v < 2 ^ 53 then v
      else let e = nat (bitlen v - 53);
               q = v div 2 ^ e;
               rest = v mod 2 ^ e;
               half = 2 ^ (e - 1)
           in if rest < half \<or> (rest = half \<and> even q) then q * 2 ^ e else (q + 1) * 2 ^ e)"

text \<open>
  The enumerations \<open>ProfileClass\<close>, \<open>ColorSpace\<close>, \<open>ProfileFlag\<close>, \<open>DeviceAttribute\<close> and
  \<open>RenderingIntent\<close> are casts of the source (\<open>as\<close>): the field holds the string or the
  number that was read. The major version is \<open>buffer[offset + 8]\<close> itself, which is
  \<open>undefined\<close> outside the buffer.
\<close>

record IccHeader =
  profileSize :: int
  preferredCmmType :: string
  version :: "int option \<times> int \<times> int"
  profileClass :: string
  profileSpace :: string
  pcsSpace :: string
  creationDate :: Date
  creationPlatform :: string
  profileFlags :: int
  deviceManufacturer :: "string option"
  deviceModel :: "string option"
  deviceAttributes :: int
  renderingIntent :: int
  pcsWhitePoint :: Xyz
  profileCreator :: "string option"
  profileId :: "string option"

definition ColorSpace_RGB :: string where
  "ColorSpace_RGB = ''RGB ''"

definition getHeader :: "buffer \<Rightarrow> int \<Rightarrow> error + IccHeader" where
  "getHeader buf off =
     (let profileSize = getUint32 buf (off + 0);
          preferredCmmType = getSignature buf (off + 4);
          versionMajor = map_option uint (index buf (off + 8));
          versionMinorPatch = byte buf (off + 9);
          versionPatch = sar (band versionMinorPatch 0xF0) 4;
          versionMinor = band versionMinorPatch 0x0F;
          version = (versionMajor, versionMinor, versionPatch);
          profileClass = getSignature buf 12;
          profileSpace = getSignature buf 16;
          pcsSpace = getSignature buf 20;
          creationDate = getDatetime buf 24;
          creationPlatform = getSignature buf 40;
          profileFlags = getUint32 buf 44;
          deviceManufacturer = getSignature buf 48;
          deviceModel = getSignature buf 52
      in case getUint64 buf 56 of
           Inl e \<Rightarrow> Inl e
         | Inr attributes \<Rightarrow>
             let deviceAttributes = Number attributes;
                 renderingIntent = getUint32 buf 64;
                 pcsWhitePoint = getXyz buf 68
             in Inr \<lparr>
                  profileSize = profileSize, preferredCmmType = preferredCmmType,
                  version = version,
                  profileClass = profileClass, profileSpace = profileSpace, pcsSpace = pcsSpace,
                  creationDate = creationDate, creationPlatform = creationPlatform,
                  profileFlags = profileFlags,
                  deviceManufacturer = Some deviceManufacturer, deviceModel = Some deviceModel,
                  deviceAttributes = deviceAttributes,
                  renderingIntent = renderingIntent, pcsWhitePoint = pcsWhitePoint,
                  profileCreator = None, profileId = None \<rparr>)"

section \<open>icc/tag.ts\<close>

type_synonym XyzTagData = "Xyz list"  \<comment> \<open>\<open>values\<close> of type \<open>"XYZ "\<close>\<close>

type_synonym CurveTagData = "16 word list"  \<comment> \<open>\<open>values\<close>, a \<open>Uint16Array\<close>, of type \<open>"curv"\<close>\<close>

record ChromaticityTagData =
  colorantType :: int
  channels :: "Chromaticity list"

datatype TagData =
    XyzData XyzTagData
  | CurveData CurveTagData
  | ChrmData ChromaticityTagData

text \<open>
  A tag: \<open>data\<close> is the optional \<open>data?: TagData\<close>.
\<close>

record Tag =
  signature :: string
  offset :: int
  size_tag :: int  \<comment> \<open>\<open>size\<close>\<close>
  data :: "TagData option"

text \<open>
  \<open>IccTagTable\<close> is a map from signatures to tags, its index signature
  \<open>[x: string]: Tag | undefined\<close>. The typed keys of the interface
  (\<open>rXYZ?: Tag & { data: XyzTagData }\<close> and the like) are declarations for the compiler:
  \<open>getTagTable\<close> stores under any signature a tag whose \<open>data\<close> is absent, when the type
  found in the buffer has no parser, or is of the type found there.
\<close>

type_synonym IccTagTable = "string \<rightharpoonup> Tag"

function XYZ_loop :: "buffer \<Rightarrow> int \<Rightarrow> int \<Rightarrow> int \<Rightarrow> Xyz list \<Rightarrow> Xyz list" where
  "XYZ_loop buf off sz xyzBase vals =
     (if xyzBase < off + sz
      then XYZ_loop buf off sz (xyzBase + 12) (vals @ [getXyz buf xyzBase])
      else vals)"
  by pat_completeness auto
termination
  by (relation "measure (\<lambda>(buf, off, sz, xyzBase, vals). nat (off + sz - xyzBase))") auto

declare XYZ_loop.simps [simp del]

definition parse_XYZ :: "buffer \<Rightarrow> int \<Rightarrow> int \<Rightarrow> error + TagData" where
  "parse_XYZ buf off sz = Inr (XyzData (XYZ_loop buf off sz (off + 8) []))"

text \<open>
  \<open>new Uint16Array(count)\<close> throws for a negative \<open>count\<close>; an element stores its value
  modulo \<open>2 ^ 16\<close>.
\<close>

function curv_loop :: "buffer \<Rightarrow> int \<Rightarrow> int \<Rightarrow> int \<Rightarrow> 16 word list \<Rightarrow> 16 word list" where
  "curv_loop buf off count i vals =
     (if i < count
      then curv_loop buf off count (i + 1) (vals @ [word_of_int (getUint16 buf (off + 12 + i * 2))])
      else vals)"
  by pat_completeness auto
termination
  by (relation "measure (\<lambda>(buf, off, count, i, vals). nat (count - i))") auto

declare curv_loop.simps [simp del]

definition parse_curv :: "buffer \<Rightarrow> int \<Rightarrow> int \<Rightarrow> error + TagData" where
  "parse_curv buf off sz =
     (let count = getUint32 buf (off + 8)
      in if count < 0 then Inl RangeError
         else Inr (CurveData (curv_loop buf off count 0 [])))"

function chrm_loop ::
  "buffer \<Rightarrow> int \<Rightarrow> int \<Rightarrow> int \<Rightarrow> Chromaticity list \<Rightarrow> Chromaticity list" where
  "chrm_loop buf off channelCount i chans =
     (if i < channelCount
      then chrm_loop buf off channelCount (i + 1)
             (chans @ [\<lparr>x = getU16Fixed16 buf (off + 12 + i * 8),
                        y = getU16Fixed16 buf (off + 16 + i * 8)\<rparr>])
      else chans)"
  by pat_completeness auto
termination
  by (relation "measure (\<lambda>(buf, off, channelCount, i, chans). nat (channelCount - i))") auto

declare chrm_loop.simps [simp del]

definition parse_chrm :: "buffer \<Rightarrow> int \<Rightarrow> int \<Rightarrow> error + TagData" where
  "parse_chrm buf off sz =
     (let channelCount = getUint16 buf (off + 8);
          colorantType = getUint16 buf (off + 10)
      in Inr (ChrmData \<lparr>colorantType = colorantType,
                        channels = chrm_loop buf off channelCount 0 []\<rparr>))"

text \<open>The three parsers, by type signature; a signature has at most four characters.\<close>

definition tagDataParsers :: "string \<Rightarrow> (buffer \<Rightarrow> int \<Rightarrow> int \<Rightarrow> error + TagData) option" where
  "tagDataParsers typeSignature =
     (if typeSignature = ''XYZ '' then Some parse_XYZ
      else if typeSignature = ''curv'' then Some parse_curv
      else if typeSignature = ''chrm'' then Some parse_chrm
      else None)"

function getTagTable_loop ::
  "buffer \<Rightarrow> int \<Rightarrow> int \<Rightarrow> int \<Rightarrow> int \<Rightarrow> IccTagTable \<Rightarrow> error + IccTagTable" where
  "getTagTable_loop buf start off count i table =
     (if i < count then
        let base = start + off + 4 + i * 12;
            sig = getSignature buf (base + 0);
            tagOffset = getUint32 buf (base + 4);
            tagSize = getUint32 buf (base + 8);
            tag = \<lparr>signature = sig, offset = tagOffset, size_tag = tagSize, data = None\<rparr>;
            table1 = table(sig \<mapsto> tag);
            typeSignature = getSignature buf (start + tagOffset)
        in (case tagDataParsers typeSignature of
              None \<Rightarrow> getTagTable_loop buf start off count (i + 1) table1
            | Some parser \<Rightarrow>
                (case parser buf (start + tagOffset) tagSize of
                   Inl e \<Rightarrow> Inl e
                 | Inr d \<Rightarrow>
                     getTagTable_loop buf start off count (i + 1)
                       (table1(sig \<mapsto> tag\<lparr>data := Some d\<rparr>))))
      else Inr table)"
  by pat_completeness auto
termination
  by (relation "measure (\<lambda>(buf, start, off, count, i, table). nat (count - i))") auto

declare getTagTable_loop.simps [simp del]

definition getTagTable :: "buffer \<Rightarrow> int \<Rightarrow> int \<Rightarrow> error + IccTagTable" where
  "getTagTable buf start off =
     (let count = getUint32 buf (start + off + 0)
      in getTagTable_loop buf start off count 0 Map.empty)"

section \<open>icc/profile.ts\<close>

record IccProfileInfo =
  header :: IccHeader
  tags :: IccTagTable

text \<open>\<open>parseIcc\<close>: the header first, then the tag table at offset 128.\<close>

definition parseIcc :: "buffer \<Rightarrow> int \<Rightarrow> error + IccProfileInfo" where
  "parseIcc buf start =
     (case getHeader buf start of
        Inl e \<Rightarrow> Inl e
      | Inr h \<Rightarrow>
          (case getTagTable buf start 128 of
             Inl e \<Rightarrow> Inl e
           | Inr t \<Rightarrow> Inr \<lparr>header = h, tags = t\<rparr>))"

definition curveOf :: "CurveTagData \<Rightarrow> Curve" where
  "curveOf curv =
     (if length curv = 0 then Identity
      else if length curv = 1 then
        let raw = uint (curv ! 0);
            int' = sar (band raw 0xFF00) 8;
            frac = band raw 0x00FF;
            gamma = real_of_int int' + real_of_int frac / 0x100
        in Gamma gamma
      else Lut (map (\<lambda>v. real_of_int (uint v) / 65535) curv))"

text \<open>
  The class \<open>IccRgbProfile\<close>. A matrix \<open>rgbMatrix\<close> that is \<open>None\<close> is the inverse of
  a singular \<open>xyzMatrix\<close>, whose entries are infinite or \<open>NaN\<close>. The constructor always
  stores three curves in \<open>trc\<close>.
\<close>

record IccRgbProfile =
  serializable :: IccProfileInfo
  xyzMatrix :: Matrix3x3
  rgbMatrix :: "Matrix3x3 option"
  trc :: "Curve list"

text \<open>
  \<open>icc.tags.rXYZ!.data.values[0]\<close>, on the tag found under the key. The \<open>!\<close> is erased by
  the compiler and nothing checks the type of the payload at run time:
  \<^item> the read of \<open>data\<close> from an absent tag throws a \<open>TypeError\<close>;
  \<^item> so does the read of \<open>values\<close> from the absent \<open>data\<close> of a tag of unrecognised type;
  \<^item> a chromaticity payload has no \<open>values\<close>, and the read of its element \<open>0\<close> throws;
  \<^item> \<open>values[0]\<close> is the first XYZ value, or the first sample of a curve payload (a
    number), or \<open>undefined\<close> when there is none.
\<close>

datatype first_value = XyzValue Xyz | NumberValue int | Undefined

definition values_0 :: "Tag option \<Rightarrow> error + first_value" where
  "values_0 t =
     (case t of
        None \<Rightarrow> Inl (TypeError ''data'')
      | Some tag \<Rightarrow>
          (case data tag of
             None \<Rightarrow> Inl (TypeError ''values'')
           | Some (XyzData vs) \<Rightarrow>
               Inr (case index vs 0 of None \<Rightarrow> Undefined | Some v \<Rightarrow> XyzValue v)
           | Some (CurveData vs) \<Rightarrow>
               Inr (case index vs 0 of None \<Rightarrow> Undefined | Some w \<Rightarrow> NumberValue (uint w))
           | Some (ChrmData c) \<Rightarrow> Inl (TypeError ''0'')))"

text \<open>
  \<open>curveOf(icc.tags.rTRC!.data)\<close>, on the tag found under the key:
  \<^item> the read of \<open>data\<close> from an absent tag throws;
  \<^item> \<open>curveOf(undefined)\<close> throws at the read of \<open>values\<close>;
  \<^item> a chromaticity payload has no \<open>values\<close>, and the read of its \<open>length\<close> throws;
  \<^item> a curve payload gives \<open>curveOf\<close> of it;
  \<^item> an XYZ payload has a list of objects as \<open>values\<close>: none gives the identity; one
    gives the gamma curve of \<open>gamma = 0\<close>, since \<open>raw & 0xFF00\<close> and \<open>raw & 0x00FF\<close> are 0
    for an object; two or more give a table of \<open>NaN\<close> (an object divided by 65535), which
    is \<open>None\<close> here.
\<close>

definition curveOf_data :: "Tag option \<Rightarrow> error + Curve option" where
  "curveOf_data t =
     (case t of
        None \<Rightarrow> Inl (TypeError ''data'')
      | Some tag \<Rightarrow>
          (case data tag of
             None \<Rightarrow> Inl (TypeError ''values'')
           | Some (CurveData curv) \<Rightarrow> Inr (Some (curveOf curv))
           | Some (XyzData vs) \<Rightarrow>
               Inr (if length vs = 0 then Some Identity
                    else if length vs = 1 then Some (Gamma 0)
                    else None)
           | Some (ChrmData c) \<Rightarrow> Inl (TypeError ''length'')))"

text \<open>
  The constructor, in the order of the source: the three first values; the matrix,
  where the read of \<open>x\<close> from a first value that is \<open>undefined\<close> throws; its inverse; the
  three curves. The result \<open>Inr None\<close> is a profile that is constructed with entries
  that are no finite numbers: a matrix column read from a number (its \<open>x\<close>, \<open>y\<close>, \<open>z\<close> are
  \<open>undefined\<close>), or a table of \<open>NaN\<close>. It is not followed further.
\<close>

definition new_IccRgbProfile :: "IccProfileInfo \<Rightarrow> error + IccRgbProfile option" where
  "new_IccRgbProfile icc =
     (case values_0 (tags icc ''rXYZ'') of Inl e \<Rightarrow> Inl e | Inr rXYZ0 \<Rightarrow>
      case values_0 (tags icc ''gXYZ'') of Inl e \<Rightarrow> Inl e | Inr gXYZ0 \<Rightarrow>
      case values_0 (tags icc ''bXYZ'') of Inl e \<Rightarrow> Inl e | Inr bXYZ0 \<Rightarrow>
      if rXYZ0 = Undefined \<or> gXYZ0 = Undefined \<or> bXYZ0 = Undefined
      then Inl (TypeError ''x'')
      else
        case curveOf_data (tags icc ''rTRC'') of Inl e \<Rightarrow> Inl e | Inr rCurve \<Rightarrow>
        case curveOf_data (tags icc ''gTRC'') of Inl e \<Rightarrow> Inl e | Inr gCurve \<Rightarrow>
        case curveOf_data (tags icc ''bTRC'') of Inl e \<Rightarrow> Inl e | Inr bCurve \<Rightarrow>
        (case (rXYZ0, gXYZ0, bXYZ0, rCurve, gCurve, bCurve) of
           (XyzValue rv, XyzValue gv, XyzValue bv, Some c0, Some c1, Some c2) \<Rightarrow>
             (let xyzMatrix = \<lparr>
                    m00 = x rv, m01 = x gv, m02 = x bv,
                    m10 = y rv, m11 = y gv, m12 = y bv,
                    m20 = z rv, m21 = z gv, m22 = z bv \<rparr>;
                  rgbMatrix = invertMat xyzMatrix
              in Inr (Some \<lparr> serializable = icc, xyzMatrix = xyzMatrix,
                              rgbMatrix = rgbMatrix, trc = [c0, c1, c2] \<rparr>))
         | _ \<Rightarrow> Inr None))"

definition profileOf :: "IccProfileInfo \<Rightarrow> error + IccRgbProfile option" where
  "profileOf icc =
     (if profileSpace (header icc) = ColorSpace_RGB then new_IccRgbProfile icc
      else Inl (Error (''Unsupported color space: '' @ profileSpace (header icc))))"

text \<open>
  \<open>toXyz([r, g, b], _hdr = false)\<close>: a component missing from the array is \<open>undefined\<close>.
  \<open>apply\<close> of \<open>undefined\<close> is \<open>undefined\<close> or \<open>NaN\<close>, except that \<open>undefined ** 0\<close> is 1.
\<close>

definition apply_component :: "Curve \<Rightarrow> real option \<Rightarrow> real option" where
  "apply_component curve c =
     (case c of
        Some v \<Rightarrow> apply_curve curve v
      | None \<Rightarrow> (case curve of Gamma gm \<Rightarrow> if gm = 0 then Some 1 else None | _ \<Rightarrow> None))"

definition IccRgbProfile_toXyz :: "IccRgbProfile \<Rightarrow> real list \<Rightarrow> bool option \<Rightarrow> XyzColor option" where
  "IccRgbProfile_toXyz p c unused_hdr =
     (case (apply_component (trc p ! 0) (index c 0),
            apply_component (trc p ! 1) (index c 1),
            apply_component (trc p ! 2) (index c 2)) of
        (Some r1, Some g1, Some b1) \<Rightarrow> Some (matMulMV (xyzMatrix p) r1 g1 b1)
      | _ \<Rightarrow> None)"

text \<open>
  \<open>fromXyz\<close>: the three components of the result, each finite or not; \<open>None\<close> for the
  whole result when the matrix is not finite.
\<close>

definition IccRgbProfile_fromXyz ::
  "IccRgbProfile \<Rightarrow> XyzColor \<Rightarrow> bool option \<Rightarrow> real option list option" where
  "IccRgbProfile_fromXyz p v unused_hdr =
     (case rgbMatrix p of
        None \<Rightarrow> None
      | Some M \<Rightarrow>
          let u = matMulMV M (x v) (y v) (z v);
              r1 = x u; g1 = y u; b1 = z u
          in Some [applyInverse (trc p ! 0) r1,
                   applyInverse (trc p ! 0) g1,
                   applyInverse (trc p ! 0) b1])"

section \<open>Example data\<close>

text \<open>
  A header of 128 bytes (size 128, CMM \<open>ADBE\<close>, version 2.1.0, class \<open>mntr\<close>, colour
  space \<open>RGB \<close>, connection space \<open>XYZ \<close>, the rest zero), and the same header embedded
  after four other bytes.
\<close>

definition bytes_of :: "string \<Rightarrow> buffer" where
  "bytes_of s = map of_char s"

definition example_header :: buffer where
  "example_header =
     [0, 0, 0, 0x80] @ bytes_of ''ADBE'' @ [0x02, 0x10, 0, 0] @
     bytes_of ''mntr'' @ bytes_of ''RGB '' @ bytes_of ''XYZ '' @ replicate 104 0"

definition example_embedded :: buffer where
  "example_embedded = [0xFF, 0xD8, 0xFF, 0xE2] @ example_header"


text \<open>
  The header above as a record, and two buffers that begin with it: one with the tag
  count 0; one with a table of the single tag \<open>rXYZ\<close> (offset 144, size 8) whose data
  are of the type \<open>text\<close>, which has no parser; and the records they parse to.
\<close>

definition example_icc_header :: IccHeader where
  "example_icc_header = \<lparr>
     profileSize = 128, preferredCmmType = ''ADBE'', version = (Some 2, 0, 1),
     profileClass = ''mntr'', profileSpace = ''RGB '', pcsSpace = ''XYZ '',
     creationDate = Date 0 (- 1) 0 0 0 0,
     creationPlatform = [CHR 0x00, CHR 0x00, CHR 0x00, CHR 0x00],
     profileFlags = 0,
     deviceManufacturer = Some [CHR 0x00, CHR 0x00, CHR 0x00, CHR 0x00],
     deviceModel = Some [CHR 0x00, CHR 0x00, CHR 0x00, CHR 0x00],
     deviceAttributes = 0, renderingIntent = 0,
     pcsWhitePoint = \<lparr>x = 0, y = 0, z = 0\<rparr>,
     profileCreator = None, profileId = None \<rparr>"

definition example_buffer_no_tags :: buffer where
  "example_buffer_no_tags = example_header @ [0, 0, 0, 0]"

definition example_no_tags :: IccProfileInfo where
  "example_no_tags = \<lparr>header = example_icc_header, tags = Map.empty\<rparr>"

definition example_table_untyped_rXYZ :: buffer where
  "example_table_untyped_rXYZ =
     [0, 0, 0, 1] @ bytes_of ''rXYZ'' @ [0, 0, 0, 144] @ [0, 0, 0, 8] @
     bytes_of ''text'' @ [0, 0, 0, 0]"

definition example_buffer_untyped_rXYZ :: buffer where
  "example_buffer_untyped_rXYZ = example_header @ example_table_untyped_rXYZ"

definition example_untyped_rXYZ :: IccProfileInfo where
  "example_untyped_rXYZ = \<lparr>
     header = example_icc_header,
     tags = [''rXYZ'' \<mapsto> \<lparr>signature = ''rXYZ'', offset = 144, size_tag = 8, data = None\<rparr>] \<rparr>"

text \<open>
  A buffer with the six tags of an RGB profile after the header: the tag table of six
  entries, at the offsets 128 to 203, and the data of the tags from the offset 204 on.
  The columns of the unit matrix are in \<open>rXYZ\<close>, \<open>gXYZ\<close>, \<open>bXYZ\<close>; the curves are a table of
  the two samples 0 and 65535 for red, no sample (the identity) for green and the one
  sample \<open>0x0200\<close> (gamma 2) for blue. Then the record that the buffer parses to, and the
  profile that the constructor builds from it.
\<close>

definition example_table_rgb :: buffer where
  "example_table_rgb =
     [0, 0, 0, 6] @
     bytes_of ''rXYZ'' @ [0, 0, 0, 204] @ [0, 0, 0, 20] @
     bytes_of ''gXYZ'' @ [0, 0, 0, 224] @ [0, 0, 0, 20] @
     bytes_of ''bXYZ'' @ [0, 0, 0, 244] @ [0, 0, 0, 20] @
     bytes_of ''rTRC'' @ [0, 0, 1, 8] @ [0, 0, 0, 16] @
     bytes_of ''gTRC'' @ [0, 0, 1, 24] @ [0, 0, 0, 12] @
     bytes_of ''bTRC'' @ [0, 0, 1, 36] @ [0, 0, 0, 14] @
     bytes_of ''XYZ '' @ [0, 0, 0, 0] @ [0, 1, 0, 0] @ [0, 0, 0, 0] @ [0, 0, 0, 0] @
     bytes_of ''XYZ '' @ [0, 0, 0, 0] @ [0, 0, 0, 0] @ [0, 1, 0, 0] @ [0, 0, 0, 0] @
     bytes_of ''XYZ '' @ [0, 0, 0, 0] @ [0, 0, 0, 0] @ [0, 0, 0, 0] @ [0, 1, 0, 0] @
     bytes_of ''curv'' @ [0, 0, 0, 0] @ [0, 0, 0, 2] @ [0, 0, 0xFF, 0xFF] @
     bytes_of ''curv'' @ [0, 0, 0, 0] @ [0, 0, 0, 0] @
     bytes_of ''curv'' @ [0, 0, 0, 0] @ [0, 0, 0, 1] @ [0x02, 0x00]"

definition example_buffer_rgb :: buffer where
  "example_buffer_rgb = example_header @ example_table_rgb"

definition example_tags :: IccTagTable where
  "example_tags = [
     ''rXYZ'' \<mapsto> \<lparr>signature = ''rXYZ'', offset = 204, size_tag = 20,
                  data = Some (XyzData [\<lparr>x = 1, y = 0, z = 0\<rparr>])\<rparr>,
     ''gXYZ'' \<mapsto> \<lparr>signature = ''gXYZ'', offset = 224, size_tag = 20,
                  data = Some (XyzData [\<lparr>x = 0, y = 1, z = 0\<rparr>])\<rparr>,
     ''bXYZ'' \<mapsto> \<lparr>signature = ''bXYZ'', offset = 244, size_tag = 20,
                  data = Some (XyzData [\<lparr>x = 0, y = 0, z = 1\<rparr>])\<rparr>,
     ''rTRC'' \<mapsto> \<lparr>signature = ''rTRC'', offset = 264, size_tag = 16,
                  data = Some (CurveData [0, 0xFFFF])\<rparr>,
     ''gTRC'' \<mapsto> \<lparr>signature = ''gTRC'', offset = 280, size_tag = 12,
                  data = Some (CurveData [])\<rparr>,
     ''bTRC'' \<mapsto> \<lparr>signature = ''bTRC'', offset = 292, size_tag = 14,
                  data = Some (CurveData [0x0200])\<rparr>]"

definition example_icc :: IccProfileInfo where
  "example_icc = \<lparr>header = example_icc_header, tags = example_tags\<rparr>"

definition example_profile :: IccRgbProfile where
  "example_profile = \<lparr>
     serializable = example_icc,
     xyzMatrix = \<lparr>m00 = 1, m01 = 0, m02 = 0, m10 = 0, m11 = 1, m12 = 0, m20 = 0, m21 = 0, m22 = 1\<rparr>,
     rgbMatrix = Some \<lparr>m00 = 1, m01 = 0, m02 = 0, m10 = 0, m11 = 1, m12 = 0, m20 = 0, m21 = 0, m22 = 1\<rparr>,
     trc = [Lut [0, 1], Identity, Gamma 2] \<rparr>"

section \<open>Notions of the specification\<close>

text \<open>
  The matrix of the lifted primaries: its columns are the tristimulus \<open>{x, y, 1 - x - y}\<close>
  of the red, the green and the blue chromaticity. It is the matrix that \<open>calcMatrices\<close>
  inverts.
\<close>

definition liftedPrimaries :: "Chromaticity \<Rightarrow> Chromaticity \<Rightarrow> Chromaticity \<Rightarrow> Matrix3x3" where
  "liftedPrimaries cr cg cb = \<lparr>
     m00 = x cr, m01 = x cg, m02 = x cb,
     m10 = y cr, m11 = y cg, m12 = y cb,
     m20 = 1 - x cr - y cr, m21 = 1 - x cg - y cg, m22 = 1 - x cb - y cb \<rparr>"

text \<open>
  The curves of the data model: a gamma above 0, a table of at least two values in
  strictly ascending order. The tolerance of the round trip through a curve: none for
  the identity and a gamma curve, \<open>1 / (n - 1)\<close> for a table of \<open>n\<close> values.
\<close>

definition curve_valid :: "Curve \<Rightarrow> bool" where
  "curve_valid c =
     (case c of
        Identity \<Rightarrow> True
      | Gamma gm \<Rightarrow> 0 < gm
      | Lut vs \<Rightarrow> 2 \<le> length vs \<and> sorted_wrt (<) vs)"

definition tolerance :: "Curve \<Rightarrow> real" where
  "tolerance c = (case c of Lut vs \<Rightarrow> 1 / (real (length vs) - 1) | _ \<Rightarrow> 0)"

section \<open>Properties\<close>

subsection \<open>Matrices of an RGB space\<close>

text \<open>
  The three rows of the product of a matrix with the cofactor matrix that \<open>invertMat\<close>
  builds from it, applied to a vector: the determinant times the vector, for any factor
  \<open>k\<close> in the place of \<open>invdet\<close>.
\<close>

lemma cofactor_row0:
  fixes a0 a1 a2 b0 b1 b2 c0 c1 c2 k u v w :: real
  shows "a0 * (((b1 * c2 - b2 * c1) * k) * u + (- (a1 * c2 - a2 * c1) * k) * v + ((a1 * b2 - a2 * b1) * k) * w)
       + a1 * ((- (b0 * c2 - b2 * c0) * k) * u + ((a0 * c2 - a2 * c0) * k) * v + (- (a0 * b2 - a2 * b0) * k) * w)
       + a2 * (((b0 * c1 - b1 * c0) * k) * u + (- (a0 * c1 - a1 * c0) * k) * v + ((a0 * b1 - a1 * b0) * k) * w)
       = ((a0 * (b1 * c2 - c1 * b2) - a1 * (b0 * c2 - b2 * c0) + a2 * (b0 * c1 - b1 * c0)) * k) * u"
  by (simp add: algebra_simps)

lemma cofactor_row1:
  fixes a0 a1 a2 b0 b1 b2 c0 c1 c2 k u v w :: real
  shows "b0 * (((b1 * c2 - b2 * c1) * k) * u + (- (a1 * c2 - a2 * c1) * k) * v + ((a1 * b2 - a2 * b1) * k) * w)
       + b1 * ((- (b0 * c2 - b2 * c0) * k) * u + ((a0 * c2 - a2 * c0) * k) * v + (- (a0 * b2 - a2 * b0) * k) * w)
       + b2 * (((b0 * c1 - b1 * c0) * k) * u + (- (a0 * c1 - a1 * c0) * k) * v + ((a0 * b1 - a1 * b0) * k) * w)
       = ((a0 * (b1 * c2 - c1 * b2) - a1 * (b0 * c2 - b2 * c0) + a2 * (b0 * c1 - b1 * c0)) * k) * v"
  by (simp add: algebra_simps)

lemma cofactor_row2:
  fixes a0 a1 a2 b0 b1 b2 c0 c1 c2 k u v w :: real
  shows "c0 * (((b1 * c2 - b2 * c1) * k) * u + (- (a1 * c2 - a2 * c1) * k) * v + ((a1 * b2 - a2 * b1) * k) * w)
       + c1 * ((- (b0 * c2 - b2 * c0) * k) * u + ((a0 * c2 - a2 * c0) * k) * v + (- (a0 * b2 - a2 * b0) * k) * w)
       + c2 * (((b0 * c1 - b1 * c0) * k) * u + (- (a0 * c1 - a1 * c0) * k) * v + ((a0 * b1 - a1 * b0) * k) * w)
       = ((a0 * (b1 * c2 - c1 * b2) - a1 * (b0 * c2 - b2 * c0) + a2 * (b0 * c1 - b1 * c0)) * k) * w"
  by (simp add: algebra_simps)

lemma calcMatrices_xyz_ones:
  assumes nz: "det3 (liftedPrimaries cr cg cb) \<noteq> 0"
  shows "\<exists>M. xyz (calcMatrices cr cg cb w) = Some M \<and>
             matMulMV M 1 1 1 = \<lparr>x = x w, y = y w, z = z w\<rparr>"
proof -
  let ?S = "liftedPrimaries cr cg cb"
  obtain Si where Si: "invertMat ?S = Some Si"
    using nz by (simp add: invertMat_def Let_def)
  have xyz: "xyz (calcMatrices cr cg cb w) = Some \<lparr>
      m00 = m00 ?S * x (matMulMV Si (x w) (y w) (z w)),
      m01 = m01 ?S * y (matMulMV Si (x w) (y w) (z w)),
      m02 = m02 ?S * z (matMulMV Si (x w) (y w) (z w)),
      m10 = m10 ?S * x (matMulMV Si (x w) (y w) (z w)),
      m11 = m11 ?S * y (matMulMV Si (x w) (y w) (z w)),
      m12 = m12 ?S * z (matMulMV Si (x w) (y w) (z w)),
      m20 = m20 ?S * x (matMulMV Si (x w) (y w) (z w)),
      m21 = m21 ?S * y (matMulMV Si (x w) (y w) (z w)),
      m22 = m22 ?S * z (matMulMV Si (x w) (y w) (z w)) \<rparr>"
    using Si by (simp add: calcMatrices_def liftedPrimaries_def Let_def)
  have Si_eq: "Si = \<lparr>
        m00 =   (m11 ?S * m22 ?S - m12 ?S * m21 ?S) * (1 / det3 ?S),
        m01 = - (m01 ?S * m22 ?S - m02 ?S * m21 ?S) * (1 / det3 ?S),
        m02 =   (m01 ?S * m12 ?S - m02 ?S * m11 ?S) * (1 / det3 ?S),
        m10 = - (m10 ?S * m22 ?S - m12 ?S * m20 ?S) * (1 / det3 ?S),
        m11 =   (m00 ?S * m22 ?S - m02 ?S * m20 ?S) * (1 / det3 ?S),
        m12 = - (m00 ?S * m12 ?S - m02 ?S * m10 ?S) * (1 / det3 ?S),
        m20 =   (m10 ?S * m21 ?S - m11 ?S * m20 ?S) * (1 / det3 ?S),
        m21 = - (m00 ?S * m21 ?S - m01 ?S * m20 ?S) * (1 / det3 ?S),
        m22 =   (m00 ?S * m11 ?S - m01 ?S * m10 ?S) * (1 / det3 ?S) \<rparr>"
    using Si nz by (simp add: invertMat_def Let_def)
  have unit: "det3 ?S * (1 / det3 ?S) = 1" using nz by simp
  have r0: "m00 ?S * x (matMulMV Si (x w) (y w) (z w)) + m01 ?S * y (matMulMV Si (x w) (y w) (z w))
          + m02 ?S * z (matMulMV Si (x w) (y w) (z w)) = x w"
    unfolding Si_eq matMulMV_def
    by (simp only: Matrix3x3.simps Chromaticity.simps Vector3.simps cofactor_row0
        det3_def [symmetric] unit mult_1)
  have r1: "m10 ?S * x (matMulMV Si (x w) (y w) (z w)) + m11 ?S * y (matMulMV Si (x w) (y w) (z w))
          + m12 ?S * z (matMulMV Si (x w) (y w) (z w)) = y w"
    unfolding Si_eq matMulMV_def
    by (simp only: Matrix3x3.simps Chromaticity.simps Vector3.simps cofactor_row1
        det3_def [symmetric] unit mult_1)
  have r2: "m20 ?S * x (matMulMV Si (x w) (y w) (z w)) + m21 ?S * y (matMulMV Si (x w) (y w) (z w))
          + m22 ?S * z (matMulMV Si (x w) (y w) (z w)) = z w"
    unfolding Si_eq matMulMV_def
    by (simp only: Matrix3x3.simps Chromaticity.simps Vector3.simps cofactor_row2
        det3_def [symmetric] unit mult_1)
  show ?thesis
    unfolding xyz by (simp add: matMulMV_def [of _ 1 1 1] r0 r1 r2)
qed

lemma srgb_primaries_det:
  "det3 (liftedPrimaries \<lparr>x = 64 / 100, y = 33 / 100\<rparr> \<lparr>x = 30 / 100, y = 60 / 100\<rparr>
      \<lparr>x = 15 / 100, y = 6 / 100\<rparr>) \<noteq> 0"
  by (simp add: det3_def liftedPrimaries_def)

text \<open>
  C6. For chromaticities whose matrix of lifted primaries (columns \<open>{x, y, 1 - x - y}\<close>)
  is invertible and every white tristimulus \<open>w\<close>, the forward matrix
  \<open>calcMatrices(r, g, b, w).xyz\<close> is a finite matrix \<open>M\<close> with \<open>M \<cdot> (1, 1, 1) = w\<close>, exactly,
  in real arithmetic.
\<close>

theorem calcMatrices_forward_white:
  fixes w :: XyzColor
  assumes "det3 (liftedPrimaries cr cg cb) \<noteq> 0"
  shows "\<exists>M. xyz (calcMatrices cr cg cb w) = Some M \<and> matMulMV M 1 1 1 = w"
proof -
  have eq: "\<lparr>x = x w, y = y w, z = z w\<rparr> = w"
    by (cases w) simp
  show ?thesis
    using calcMatrices_xyz_ones [OF assms, of w] unfolding eq .
qed

theorem calcMatrices_forward_white_witness:
  "det3 (liftedPrimaries \<lparr>x = 64 / 100, y = 33 / 100\<rparr> \<lparr>x = 30 / 100, y = 60 / 100\<rparr>
      \<lparr>x = 15 / 100, y = 6 / 100\<rparr>) \<noteq> 0
   \<and> (\<exists>M. xyz (calcMatrices \<lparr>x = 64 / 100, y = 33 / 100\<rparr> \<lparr>x = 30 / 100, y = 60 / 100\<rparr>
              \<lparr>x = 15 / 100, y = 6 / 100\<rparr> \<lparr>x = 9505 / 10000, y = 1, z = 1089 / 1000\<rparr>) = Some M
          \<and> matMulMV M 1 1 1 = \<lparr>x = 9505 / 10000, y = 1, z = 1089 / 1000\<rparr>)"
  using calcMatrices_forward_white [OF srgb_primaries_det,
      of "\<lparr>x = 9505 / 10000, y = 1, z = 1089 / 1000\<rparr>"] srgb_primaries_det
  by simp

subsection \<open>The white of an RGB profile\<close>

lemma applyInverse_Gamma_one: "gm \<noteq> 0 \<Longrightarrow> applyInverse (Gamma gm) (clamp01 1) = Some 1"
  by (simp add: applyInverse_def clamp01_def pow_def)

text \<open>
  The white \<open>{r: 1, g: 1, b: 1}\<close> of a profile with invertible primaries, whose curves
  send 1 to 1, goes to the white tristimulus that \<open>calcConversionInfo\<close> handed to
  \<open>calcMatrices\<close>: the chromaticity lifted to \<open>{x, y, 1 - x - y}\<close>, and that times the
  luminance.
\<close>

lemma RgbProfile_toXyz_white:
  assumes nz: "det3 (liftedPrimaries (RgbPrimary.chromaticity (RgbPrimaries.r (primaries info)))
          (RgbPrimary.chromaticity (RgbPrimaries.g (primaries info)))
          (RgbPrimary.chromaticity (RgbPrimaries.b (primaries info)))) \<noteq> 0"
    and r1: "applyInverse (RgbPrimary.trc (RgbPrimaries.r (primaries info))) (clamp01 1) = Some 1"
    and g1: "applyInverse (RgbPrimary.trc (RgbPrimaries.g (primaries info))) (clamp01 1) = Some 1"
    and b1: "applyInverse (RgbPrimary.trc (RgbPrimaries.b (primaries info))) (clamp01 1) = Some 1"
  shows "RgbProfile_toXyz (new_RgbProfile info) \<lparr>RgbColor.r = 1, RgbColor.g = 1, RgbColor.b = 1\<rparr> h =
     Some (let c = WhitePoint.chromaticity (whitePoint info);
               k = (if hdr_or_default h then luminance (whitePoint info) else 1)
           in \<lparr>x = x c * k, y = y c * k, z = (1 - x c - y c) * k\<rparr>)"
proof -
  let ?cr = "RgbPrimary.chromaticity (RgbPrimaries.r (primaries info))"
  let ?cg = "RgbPrimary.chromaticity (RgbPrimaries.g (primaries info))"
  let ?cb = "RgbPrimary.chromaticity (RgbPrimaries.b (primaries info))"
  let ?c = "WhitePoint.chromaticity (whitePoint info)"
  let ?sw = "\<lparr>x = x ?c, y = y ?c, z = 1 - x ?c - y ?c\<rparr>"
  let ?hw = "\<lparr>x = x ?c * luminance (whitePoint info), y = y ?c * luminance (whitePoint info),
              z = (1 - x ?c - y ?c) * luminance (whitePoint info)\<rparr>"
  obtain Ms where Ms: "xyz (calcMatrices ?cr ?cg ?cb ?sw) = Some Ms" "matMulMV Ms 1 1 1 = ?sw"
    using calcMatrices_xyz_ones [OF nz, of ?sw] by auto
  obtain Mh where Mh: "xyz (calcMatrices ?cr ?cg ?cb ?hw) = Some Mh" "matMulMV Mh 1 1 1 = ?hw"
    using calcMatrices_xyz_ones [OF nz, of ?hw] by auto
  show ?thesis
    by (simp add: RgbProfile_toXyz_def new_RgbProfile_def calcConversionInfo_def Let_def
        r1 g1 b1 Ms Mh)
qed

lemma srgb_toXyz_white:
  "RgbProfile_toXyz (new_RgbProfile srgb) \<lparr>RgbColor.r = 1, RgbColor.g = 1, RgbColor.b = 1\<rparr> h =
     Some (if hdr_or_default h
           then \<lparr>x = 25016 / 1000, y = 2632 / 100, z = 28664 / 1000\<rparr>
           else \<lparr>x = 3127 / 10000, y = 329 / 1000, z = 3583 / 10000\<rparr>)"
proof -
  have nz: "det3 (liftedPrimaries (RgbPrimary.chromaticity (RgbPrimaries.r (primaries srgb)))
          (RgbPrimary.chromaticity (RgbPrimaries.g (primaries srgb)))
          (RgbPrimary.chromaticity (RgbPrimaries.b (primaries srgb)))) \<noteq> 0"
    using srgb_primaries_det by (simp add: srgb_def)
  have c: "applyInverse (RgbPrimary.trc (RgbPrimaries.r (primaries srgb))) (clamp01 1) = Some 1"
     "applyInverse (RgbPrimary.trc (RgbPrimaries.g (primaries srgb))) (clamp01 1) = Some 1"
     "applyInverse (RgbPrimary.trc (RgbPrimaries.b (primaries srgb))) (clamp01 1) = Some 1"
    by (simp_all add: srgb_def applyInverse_Gamma_one)
  show ?thesis
    unfolding RgbProfile_toXyz_white [OF nz c]
    by (simp add: srgb_def)
qed

text \<open>
  C1. The code at the built-in sRGB profile (luminance 80): the white tristimulus that
  \<open>calcConversionInfo\<close> uses for the SDR pair has \<open>Y = 0.329\<close>, the \<open>y\<close> of the white
  chromaticity, and the one for the HDR pair has \<open>Y = 0.329 \<cdot> 80 = 26.32\<close>; and
  \<open>toXyz({r: 1, g: 1, b: 1}, hdr)\<close> returns \<open>Y = 0.329\<close> without \<open>hdr\<close> and \<open>Y = 26.32\<close>
  with it, where the claim has 1 and 80.
\<close>

theorem srgb_white_Y:
  "sdr (conversion (new_RgbProfile srgb)) =
     calcMatrices \<lparr>x = 64 / 100, y = 33 / 100\<rparr> \<lparr>x = 30 / 100, y = 60 / 100\<rparr>
       \<lparr>x = 15 / 100, y = 6 / 100\<rparr> \<lparr>x = 3127 / 10000, y = 329 / 1000, z = 3583 / 10000\<rparr>
   \<and> hdr (conversion (new_RgbProfile srgb)) =
     calcMatrices \<lparr>x = 64 / 100, y = 33 / 100\<rparr> \<lparr>x = 30 / 100, y = 60 / 100\<rparr>
       \<lparr>x = 15 / 100, y = 6 / 100\<rparr> \<lparr>x = 25016 / 1000, y = 2632 / 100, z = 28664 / 1000\<rparr>
   \<and> map_option y (RgbProfile_toXyz (new_RgbProfile srgb)
         \<lparr>RgbColor.r = 1, RgbColor.g = 1, RgbColor.b = 1\<rparr> (Some False)) = Some (329 / 1000)
   \<and> map_option y (RgbProfile_toXyz (new_RgbProfile srgb)
         \<lparr>RgbColor.r = 1, RgbColor.g = 1, RgbColor.b = 1\<rparr> None) = Some (329 / 1000)
   \<and> map_option y (RgbProfile_toXyz (new_RgbProfile srgb)
         \<lparr>RgbColor.r = 1, RgbColor.g = 1, RgbColor.b = 1\<rparr> (Some True)) = Some (2632 / 100)"
proof -
  have "sdr (conversion (new_RgbProfile srgb)) =
     calcMatrices \<lparr>x = 64 / 100, y = 33 / 100\<rparr> \<lparr>x = 30 / 100, y = 60 / 100\<rparr>
       \<lparr>x = 15 / 100, y = 6 / 100\<rparr> \<lparr>x = 3127 / 10000, y = 329 / 1000, z = 3583 / 10000\<rparr>"
    by (simp add: new_RgbProfile_def calcConversionInfo_def srgb_def Let_def)
  moreover have "hdr (conversion (new_RgbProfile srgb)) =
     calcMatrices \<lparr>x = 64 / 100, y = 33 / 100\<rparr> \<lparr>x = 30 / 100, y = 60 / 100\<rparr>
       \<lparr>x = 15 / 100, y = 6 / 100\<rparr> \<lparr>x = 25016 / 1000, y = 2632 / 100, z = 28664 / 1000\<rparr>"
    by (simp add: new_RgbProfile_def calcConversionInfo_def srgb_def Let_def)
  ultimately show ?thesis
    by (simp add: srgb_toXyz_white hdr_or_default_def)
qed

subsection \<open>The binary search of a table\<close>

text \<open>
  The invariant of the loop on a sorted array: every value left of \<open>low\<close> is below the
  query and every value right of \<open>high\<close> is above it. The loop returns an index that
  holds the query, or \<open>-(k + 1)\<close> where the values before \<open>k\<close> are below the query and
  the values from \<open>k\<close> on are above it.
\<close>

lemma binarySearch_loop_sorted:
  shows "sorted vs \<Longrightarrow> 0 \<le> low \<Longrightarrow> high < int (length vs) \<Longrightarrow> low \<le> high + 1 \<Longrightarrow>
    (\<forall>i. 0 \<le> i \<and> i < low \<longrightarrow> vs ! nat i < v) \<Longrightarrow>
    (\<forall>i. high < i \<and> i < int (length vs) \<longrightarrow> v < vs ! nat i) \<Longrightarrow>
    (let res = binarySearch_loop vs v low high in
      (0 \<le> res \<and> res < int (length vs) \<and> vs ! nat res = v) \<or>
      (res < 0 \<and> - res - 1 \<le> int (length vs) \<and>
        (\<forall>i. 0 \<le> i \<and> i < - res - 1 \<longrightarrow> vs ! nat i < v) \<and>
        (\<forall>i. - res - 1 \<le> i \<and> i < int (length vs) \<longrightarrow> v < vs ! nat i)))"
proof (induction vs v low high rule: binarySearch_loop.induct)
  case (1 array v low high)
  show ?case
  proof (cases "low \<le> high")
    case False
    with "1.prems" have "low = high + 1" by simp
    with False "1.prems" show ?thesis
      by (subst binarySearch_loop.simps) (simp add: Let_def)
  next
    case True
    define mid where "mid = (low + high) div 2"
    have mid: "low \<le> mid" "mid \<le> high" using True by (simp_all add: mid_def)
    then have inr: "0 \<le> mid" "mid < int (length array)" using "1.prems" by simp_all
    then have idx: "index array mid = Some (array ! nat mid)" by (simp add: index_def)
    have srt: "\<And>i j. 0 \<le> i \<Longrightarrow> i \<le> j \<Longrightarrow> j < int (length array) \<Longrightarrow> array ! nat i \<le> array ! nat j"
      using "1.prems"(1) by (simp add: sorted_iff_nth_mono)
    consider (lt) "array ! nat mid < v" | (gt) "v < array ! nat mid" | (eq) "array ! nat mid = v"
      by fastforce
    then show ?thesis
    proof cases
      case lt
      have below: "\<forall>i. 0 \<le> i \<and> i < mid + 1 \<longrightarrow> array ! nat i < v"
      proof (intro allI impI)
        fix i assume "0 \<le> i \<and> i < mid + 1"
        then have "array ! nat i \<le> array ! nat mid" using srt [of i mid] inr by simp
        with lt show "array ! nat i < v" by simp
      qed
      have "binarySearch_loop array v low high = binarySearch_loop array v (mid + 1) high"
        using True lt idx by (subst binarySearch_loop.simps) (simp add: Let_def mid_def)
      moreover have "(let res = binarySearch_loop array v (mid + 1) high in
      (0 \<le> res \<and> res < int (length array) \<and> array ! nat res = v) \<or>
      (res < 0 \<and> - res - 1 \<le> int (length array) \<and>
        (\<forall>i. 0 \<le> i \<and> i < - res - 1 \<longrightarrow> array ! nat i < v) \<and>
        (\<forall>i. - res - 1 \<le> i \<and> i < int (length array) \<longrightarrow> v < array ! nat i)))"
        using "1.IH"(1) [OF True mid_def idx lt] inr mid "1.prems" below
        by simp
      ultimately show ?thesis by simp
    next
      case gt
      have above: "\<forall>i. mid - 1 < i \<and> i < int (length array) \<longrightarrow> v < array ! nat i"
      proof (intro allI impI)
        fix i assume "mid - 1 < i \<and> i < int (length array)"
        then have "array ! nat mid \<le> array ! nat i" using srt [of mid i] inr by simp
        with gt show "v < array ! nat i" by simp
      qed
      have ngt: "\<not> array ! nat mid < v" using gt by simp
      have "binarySearch_loop array v low high = binarySearch_loop array v low (mid - 1)"
        using True gt ngt idx by (subst binarySearch_loop.simps) (simp add: Let_def mid_def)
      moreover have "(let res = binarySearch_loop array v low (mid - 1) in
      (0 \<le> res \<and> res < int (length array) \<and> array ! nat res = v) \<or>
      (res < 0 \<and> - res - 1 \<le> int (length array) \<and>
        (\<forall>i. 0 \<le> i \<and> i < - res - 1 \<longrightarrow> array ! nat i < v) \<and>
        (\<forall>i. - res - 1 \<le> i \<and> i < int (length array) \<longrightarrow> v < array ! nat i)))"
        using "1.IH"(2) [OF True mid_def idx ngt] gt inr mid "1.prems" above
        by simp
      ultimately show ?thesis by simp
    next
      case eq
      have "binarySearch_loop array v low high = mid"
        using True eq idx by (subst binarySearch_loop.simps) (simp add: Let_def mid_def)
      then show ?thesis using eq inr by simp
    qed
  qed
qed

lemma binarySearch_sorted:
  assumes "sorted vs"
  shows "(0 \<le> binarySearch vs v \<and> binarySearch vs v < int (length vs) \<and> vs ! nat (binarySearch vs v) = v) \<or>
      (binarySearch vs v < 0 \<and> - binarySearch vs v - 1 \<le> int (length vs) \<and>
        (\<forall>i. 0 \<le> i \<and> i < - binarySearch vs v - 1 \<longrightarrow> vs ! nat i < v) \<and>
        (\<forall>i. - binarySearch vs v - 1 \<le> i \<and> i < int (length vs) \<longrightarrow> v < vs ! nat i))"
  using binarySearch_loop_sorted [OF assms, of 0 "int (length vs) - 1" v]
  by (simp add: binarySearch_def Let_def)

lemma length_filter_prefix:
  assumes "k \<le> length vs" "\<forall>i < k. P (vs ! i)" "\<forall>i. k \<le> i \<and> i < length vs \<longrightarrow> \<not> P (vs ! i)"
  shows "length (filter P vs) = k"
proof -
  have a: "filter P (take k vs) = take k vs"
    using assms by (auto simp: filter_id_conv in_set_conv_nth)
  have b: "filter P (drop k vs) = []"
    using assms by (auto simp: filter_empty_conv in_set_conv_nth)
  have "filter P vs = filter P (take k vs @ drop k vs)" by simp
  also have "\<dots> = take k vs" unfolding filter_append a b by simp
  finally show ?thesis using assms(1) by simp
qed

lemma binarySearch_hit:
  assumes "sorted vs" "v \<in> set vs"
  shows "0 \<le> binarySearch vs v \<and> binarySearch vs v < int (length vs) \<and> vs ! nat (binarySearch vs v) = v"
proof -
  from assms(2) obtain j where j: "j < length vs" "vs ! j = v" by (auto simp: in_set_conv_nth)
  show ?thesis
    using binarySearch_sorted [OF assms(1), of v]
  proof
    assume "0 \<le> binarySearch vs v \<and> binarySearch vs v < int (length vs) \<and> vs ! nat (binarySearch vs v) = v"
    then show ?thesis .
  next
    assume m: "binarySearch vs v < 0 \<and> - binarySearch vs v - 1 \<le> int (length vs) \<and>
        (\<forall>i. 0 \<le> i \<and> i < - binarySearch vs v - 1 \<longrightarrow> vs ! nat i < v) \<and>
        (\<forall>i. - binarySearch vs v - 1 \<le> i \<and> i < int (length vs) \<longrightarrow> v < vs ! nat i)"
    then have lo: "0 \<le> int j \<and> int j < - binarySearch vs v - 1 \<longrightarrow> vs ! nat (int j) < v"
      and hi: "- binarySearch vs v - 1 \<le> int j \<and> int j < int (length vs) \<longrightarrow> v < vs ! nat (int j)"
      by blast+
    have "vs ! j < v \<or> v < vs ! j"
    proof (cases "int j < - binarySearch vs v - 1")
      case True
      with lo show ?thesis by simp
    next
      case False
      with hi j(1) show ?thesis by simp
    qed
    with j show ?thesis by simp
  qed
qed

lemma binarySearch_miss:
  assumes "sorted vs" "v \<notin> set vs"
  shows "binarySearch vs v = - (int (length (filter (\<lambda>a. a < v) vs)) + 1)"
proof -
  have "\<not> (0 \<le> binarySearch vs v \<and> binarySearch vs v < int (length vs) \<and> vs ! nat (binarySearch vs v) = v)"
    using assms(2) by (auto simp: in_set_conv_nth)
  with binarySearch_sorted [OF assms(1), of v]
  have m: "binarySearch vs v < 0" "- binarySearch vs v - 1 \<le> int (length vs)"
        "\<forall>i. 0 \<le> i \<and> i < - binarySearch vs v - 1 \<longrightarrow> vs ! nat i < v"
        "\<forall>i. - binarySearch vs v - 1 \<le> i \<and> i < int (length vs) \<longrightarrow> v < vs ! nat i"
    by blast+
  define k where "k = nat (- binarySearch vs v - 1)"
  have k: "int k = - binarySearch vs v - 1" using m(1) by (simp add: k_def)
  have "length (filter (\<lambda>a. a < v) vs) = k"
  proof (rule length_filter_prefix)
    show "k \<le> length vs" using m(2) k by simp
    show "\<forall>i<k. vs ! i < v"
    proof (intro allI impI)
      fix i assume "i < k"
      then show "vs ! i < v" using m(3) [rule_format, of "int i"] k by simp
    qed
    show "\<forall>i. k \<le> i \<and> i < length vs \<longrightarrow> \<not> vs ! i < v"
    proof (intro allI impI)
      fix i assume "k \<le> i \<and> i < length vs"
      then show "\<not> vs ! i < v" using m(4) [rule_format, of "int i"] k by simp
    qed
  qed
  then show ?thesis using k by simp
qed

lemma applyInverse_Lut_eq:
  "length vs \<noteq> 1 \<Longrightarrow> applyInverse (Lut vs) v =
     Some (real_of_int (if binarySearch vs v \<ge> 0 then binarySearch vs v else - binarySearch vs v - 1)
           / (real (length vs) - 1))"
  by (simp add: applyInverse_def Let_def)

lemma applyInverse_Lut_hit:
  assumes "sorted vs" "length vs \<noteq> 1" "v \<in> set vs"
  shows "\<exists>i<length vs. vs ! i = v \<and> applyInverse (Lut vs) v = Some (real i / (real (length vs) - 1))"
proof -
  let ?s = "binarySearch vs v"
  have h: "0 \<le> ?s" "?s < int (length vs)" "vs ! nat ?s = v"
    using binarySearch_hit [OF assms(1,3)] by simp_all
  have "applyInverse (Lut vs) v = Some (real (nat ?s) / (real (length vs) - 1))"
    using h(1) by (simp add: applyInverse_Lut_eq [OF assms(2)])
  moreover have "nat ?s < length vs" using h(1,2) by simp
  ultimately show ?thesis using h(3) by blast
qed

lemma applyInverse_Lut_hit_distinct:
  assumes "sorted vs" "length vs \<noteq> 1" "distinct vs" "i < length vs"
  shows "applyInverse (Lut vs) (vs ! i) = Some (real i / (real (length vs) - 1))"
proof -
  have "vs ! i \<in> set vs" using assms(4) by simp
  from applyInverse_Lut_hit [OF assms(1,2) this]
  obtain j where j: "j < length vs" "vs ! j = vs ! i"
    "applyInverse (Lut vs) (vs ! i) = Some (real j / (real (length vs) - 1))" by blast
  have "j = i" using j(1,2) assms(3,4) by (simp add: nth_eq_iff_index_eq)
  with j(3) show ?thesis by simp
qed

lemma applyInverse_Lut_miss:
  assumes "sorted vs" "length vs \<noteq> 1" "v \<notin> set vs"
  shows "applyInverse (Lut vs) v =
     Some (real (length (filter (\<lambda>a. a < v) vs)) / (real (length vs) - 1))"
  by (simp add: applyInverse_Lut_eq [OF assms(2)] binarySearch_miss [OF assms(1,3)])

lemma insort_below_above:
  "sorted vs \<Longrightarrow> v \<notin> set vs \<Longrightarrow>
   insort v vs = take (length (filter (\<lambda>a. a < v) vs)) vs @ v # drop (length (filter (\<lambda>a. a < v) vs)) vs"
proof (induction vs)
  case Nil
  then show ?case by simp
next
  case (Cons a vs)
  show ?case
  proof (cases "a < v")
    case True
    with Cons show ?thesis by simp
  next
    case False
    with Cons.prems have va: "v < a" by auto
    have "\<forall>b \<in> set vs. \<not> b < v" using Cons.prems(1) va by fastforce
    then have "filter (\<lambda>b. b < v) vs = []" by (simp add: filter_empty_conv)
    moreover have "v \<le> a" using va by simp
    ultimately show ?thesis using False by simp
  qed
qed

lemma Lut3_sorted: "sorted [0, 1 / 2, 1 :: real]" "distinct [0, 1 / 2, 1 :: real]"
  by simp_all

lemma Lut3_examples:
  "applyInverse (Lut [0, 1 / 2, 1]) (1 / 2) = Some (1 / 2)"
  "applyInverse (Lut [0, 1 / 2, 1]) (1 / 4) = Some (1 / 2)"
proof -
  show "applyInverse (Lut [0, 1 / 2, 1]) (1 / 2) = Some (1 / 2)"
    using applyInverse_Lut_hit_distinct [OF Lut3_sorted(1) _ Lut3_sorted(2), of 1] by simp
  show "applyInverse (Lut [0, 1 / 2, 1]) (1 / 4) = Some (1 / 2)"
    using applyInverse_Lut_miss [OF Lut3_sorted(1), of "1 / 4"] by simp
qed

text \<open>
  C8. For a table \<open>vs\<close> of ascending values (sorted, ties allowed) of length \<open>n\<close> and a
  query \<open>v\<close> (\<open>n\<close> other than 1, where \<open>n - 1\<close> is 0 and the quotient is no number): if
  \<open>v\<close> is a value of the table, \<open>applyInverse\<close> returns \<open>i / (n - 1)\<close> for an index \<open>i\<close> that
  holds \<open>v\<close> (the index, when the values are distinct); otherwise it returns
  \<open>k / (n - 1)\<close> for the insertion index \<open>k\<close>, the number of values below \<open>v\<close>, where \<open>v\<close>
  goes in a sorted insertion. Nothing is interpolated: for \<open>[0, 0.5, 1]\<close> the query
  \<open>0.5\<close> gives \<open>0.5\<close> and the query \<open>0.25\<close> gives \<open>1 / 2\<close>, the insertion index 1
  normalised.
\<close>

theorem applyInverse_Lut_search:
  assumes "sorted vs" "length vs \<noteq> 1"
  shows "(v \<in> set vs \<longrightarrow>
           (\<exists>i<length vs. vs ! i = v \<and>
              applyInverse (Lut vs) v = Some (real i / (real (length vs) - 1))))
       \<and> (distinct vs \<longrightarrow>
           (\<forall>i<length vs. vs ! i = v \<longrightarrow>
              applyInverse (Lut vs) v = Some (real i / (real (length vs) - 1))))
       \<and> (v \<notin> set vs \<longrightarrow>
           applyInverse (Lut vs) v =
             Some (real (length (filter (\<lambda>a. a < v) vs)) / (real (length vs) - 1))
           \<and> insort v vs = take (length (filter (\<lambda>a. a < v) vs)) vs
                              @ v # drop (length (filter (\<lambda>a. a < v) vs)) vs)
       \<and> applyInverse (Lut [0, 1 / 2, 1]) (1 / 2) = Some (1 / 2)
       \<and> applyInverse (Lut [0, 1 / 2, 1]) (1 / 4) = Some (1 / 2)"
proof -
  note n = assms(2)
  show ?thesis
    using applyInverse_Lut_hit [OF assms(1) n, of v]
      applyInverse_Lut_hit_distinct [OF assms(1) n]
      applyInverse_Lut_miss [OF assms(1) n, of v]
      insort_below_above [OF assms(1), of v] Lut3_examples
    by blast
qed

theorem applyInverse_Lut_search_witness:
  "sorted [0, 1 / 2, 1 :: real] \<and> length [0, 1 / 2, 1 :: real] \<noteq> 1
   \<and> applyInverse (Lut [0, 1 / 2, 1]) 1 = Some 1
   \<and> applyInverse (Lut [0, 1 / 2, 1]) (3 / 4) = Some 1"
proof -
  have h: "sorted [0, 1 / 2, 1 :: real]" "length [0, 1 / 2, 1 :: real] \<noteq> 1"
    by simp_all
  have "distinct [0, 1 / 2, 1 :: real]" "(2::nat) < length [0, 1 / 2, 1 :: real]"
    "[0, 1 / 2, 1 :: real] ! 2 = 1"
    by simp_all
  with applyInverse_Lut_search [OF h, of 1]
  have "applyInverse (Lut [0, 1 / 2, 1]) 1 = Some (real 2 / (real (length [0, 1 / 2, 1 :: real]) - 1))"
    by blast
  moreover have "(3 / 4 :: real) \<notin> set [0, 1 / 2, 1]" by simp
  with applyInverse_Lut_search [OF h, of "3 / 4"]
  have "applyInverse (Lut [0, 1 / 2, 1]) (3 / 4) =
      Some (real (length (filter (\<lambda>a. a < 3 / 4) [0, 1 / 2, 1 :: real]))
            / (real (length [0, 1 / 2, 1 :: real]) - 1))"
    by blast
  ultimately show ?thesis using h by simp
qed

subsection \<open>The round trip through a curve\<close>

lemma roundtrip_Identity:
  "apply_curve Identity v = Some v \<and> applyInverse Identity v = Some v"
  by (simp add: apply_curve_def applyInverse_def)

lemma roundtrip_Gamma:
  assumes "0 < gm" "0 \<le> v"
  shows "\<exists>u. apply_curve (Gamma gm) v = Some u \<and> applyInverse (Gamma gm) u = Some v"
proof (cases "v = 0")
  case True
  with assms(1) show ?thesis
    by (simp add: apply_curve_def applyInverse_def pow_def)
next
  case False
  with assms(2) have pos: "0 < v" by simp
  have a: "apply_curve (Gamma gm) v = Some (v powr gm)"
    using assms(1) pos by (simp add: apply_curve_def pow_def)
  have "(v powr gm) powr (1 / gm) = v"
    using assms(1) pos by (simp add: powr_powr)
  then have "applyInverse (Gamma gm) (v powr gm) = Some v"
    using assms(1) pos by (simp add: applyInverse_def pow_def)
  with a show ?thesis by blast
qed

lemma Math_round_range:
  assumes "0 \<le> v" "v \<le> 1" "1 \<le> n"
  shows "0 \<le> Math_round ((real n - 1) * v)" "Math_round ((real n - 1) * v) < int n"
    "\<bar>real_of_int (Math_round ((real n - 1) * v)) - (real n - 1) * v\<bar> \<le> 1 / 2"
proof -
  let ?t = "(real n - 1) * v"
  have t0: "0 \<le> ?t" using assms by simp
  have "?t \<le> (real n - 1) * 1" using assms by (intro mult_left_mono) simp_all
  then have t1: "?t \<le> real n - 1" by simp
  show "0 \<le> Math_round ?t" using t0 by (simp add: Math_round_def)
  have "?t + 1 / 2 < real n" using t1 by simp
  then have "\<lfloor>?t + 1 / 2\<rfloor> < int n" by (simp add: floor_less_iff)
  then show "Math_round ?t < int n" by (simp add: Math_round_def)
  have "real_of_int \<lfloor>?t + 1 / 2\<rfloor> \<le> ?t + 1 / 2" "?t + 1 / 2 < real_of_int \<lfloor>?t + 1 / 2\<rfloor> + 1"
    by linarith+
  then show "\<bar>real_of_int (Math_round ?t) - ?t\<bar> \<le> 1 / 2"
    unfolding Math_round_def by linarith
qed

lemma roundtrip_Lut:
  assumes "2 \<le> length vs" "sorted_wrt (<) vs" "0 \<le> v" "v \<le> 1"
  shows "\<exists>u w. apply_curve (Lut vs) v = Some u \<and> applyInverse (Lut vs) u = Some w
     \<and> \<bar>w - v\<bar> \<le> 1 / (real (length vs) - 1)"
proof -
  let ?n = "length vs"
  let ?i = "Math_round ((real ?n - 1) * v)"
  have n1: "1 \<le> ?n" "?n \<noteq> 1" using assms(1) by simp_all
  have sd: "sorted vs" "distinct vs" using assms(2) by (simp_all add: strict_sorted_iff)
  note rng = Math_round_range [OF assms(3,4) n1(1)]
  have i: "nat ?i < ?n" using rng(1,2) by simp
  have a: "apply_curve (Lut vs) v = Some (vs ! nat ?i)"
    using rng(1,2) by (simp add: apply_curve_def index_def)
  have b: "applyInverse (Lut vs) (vs ! nat ?i) = Some (real (nat ?i) / (real ?n - 1))"
    by (rule applyInverse_Lut_hit_distinct [OF sd(1) n1(2) sd(2) i])
  have pos: "0 < real ?n - 1" using assms(1) by simp
  have ri: "real (nat ?i) = real_of_int ?i" using rng(1) by simp
  have "\<bar>real (nat ?i) / (real ?n - 1) - v\<bar> = \<bar>real_of_int ?i - (real ?n - 1) * v\<bar> / (real ?n - 1)"
    using pos unfolding ri by (simp add: field_simps abs_if)
  also have "\<dots> \<le> (1 / 2) / (real ?n - 1)"
    using rng(3) pos by (intro divide_right_mono) simp_all
  also have "\<dots> \<le> 1 / (real ?n - 1)"
    using pos by (simp add: field_simps)
  finally show ?thesis using a b by blast
qed

text \<open>
  C7, as amended. For every curve \<open>c\<close> that is the identity, a gamma curve with
  \<open>gamma > 0\<close> or a table of at least two strictly ascending values, and every \<open>v\<close> in
  \<open>[0, 1]\<close>: \<open>apply(c, v)\<close> and \<open>applyInverse\<close> of it are finite numbers, and the latter is
  \<open>v\<close> itself for the identity and a gamma curve and within \<open>1 / (n - 1)\<close> of \<open>v\<close> for a
  table of \<open>n\<close> values.
\<close>

theorem applyInverse_apply_roundtrip:
  assumes "curve_valid c" "0 \<le> v" "v \<le> 1"
  shows "\<exists>u w. apply_curve c v = Some u \<and> applyInverse c u = Some w \<and> \<bar>w - v\<bar> \<le> tolerance c"
proof (cases c)
  case Identity
  then show ?thesis using roundtrip_Identity [of v] by (simp add: tolerance_def)
next
  case (Gamma gm)
  then show ?thesis using roundtrip_Gamma [of gm v] assms
    by (auto simp: tolerance_def curve_valid_def)
next
  case (Lut vs)
  then show ?thesis using roundtrip_Lut [of vs v] assms
    by (simp add: tolerance_def curve_valid_def)
qed

theorem applyInverse_apply_roundtrip_witness:
  "curve_valid (Lut [0, 1 / 2, 1]) \<and> (0::real) \<le> 3 / 10 \<and> (3 / 10 :: real) \<le> 1
   \<and> (\<exists>u w. apply_curve (Lut [0, 1 / 2, 1]) (3 / 10) = Some u
          \<and> applyInverse (Lut [0, 1 / 2, 1]) u = Some w
          \<and> \<bar>w - 3 / 10\<bar> \<le> tolerance (Lut [0, 1 / 2, 1]))"
proof -
  have h: "curve_valid (Lut [0, 1 / 2, 1])" by (simp add: curve_valid_def)
  have "(0::real) \<le> 3 / 10" "(3 / 10 :: real) \<le> 1" by simp_all
  from applyInverse_apply_roundtrip [OF h this] h show ?thesis by simp
qed

text \<open>
  C7 as stated fails for a table that is ascending with ties. The saturating table
  \<open>[0, 0.25, 0.5, 1, 1, 1, 1, 1, 1]\<close> of 9 values sends 1 to its last value 1, and the
  binary search for 1 stops at index 4, the first one it probes: the round trip gives
  \<open>4 / 8 = 0.5\<close>, which is \<open>0.5\<close> away from 1, more than \<open>1 / 8\<close>.
\<close>

theorem roundtrip_ties_counterexample:
  "sorted [0, 1 / 4, 1 / 2, 1, 1, 1, 1, 1, 1 :: real]
   \<and> apply_curve (Lut [0, 1 / 4, 1 / 2, 1, 1, 1, 1, 1, 1]) 1 = Some 1
   \<and> applyInverse (Lut [0, 1 / 4, 1 / 2, 1, 1, 1, 1, 1, 1]) 1 = Some (1 / 2)
   \<and> \<not> \<bar>1 / 2 - 1 :: real\<bar> \<le> 1 / (real (length [0, 1 / 4, 1 / 2, 1, 1, 1, 1, 1, 1 :: real]) - 1)"
proof -
  have "binarySearch [0, 1 / 4, 1 / 2, 1, 1, 1, 1, 1, 1] 1 = 4"
    by (simp add: binarySearch_def binarySearch_loop.simps index_def)
  then have "applyInverse (Lut [0, 1 / 4, 1 / 2, 1, 1, 1, 1, 1, 1]) 1 = Some (1 / 2)"
    by (simp add: applyInverse_def)
  moreover have "apply_curve (Lut [0, 1 / 4, 1 / 2, 1, 1, 1, 1, 1, 1]) 1 = Some 1"
    by (simp add: apply_curve_def Math_round_def index_def)
  ultimately show ?thesis by simp
qed

subsection \<open>The fixed-point codec\<close>

text \<open>
  The bitwise operators at the level of 32-bit words, the masks of the source as bit
  masks, and the four bytes that \<open>setUint32\<close> stores put together again by \<open>getUint32\<close>.
\<close>

lemma word_of_int_ops:
  "(word_of_int (band a c) :: 32 word) = word_of_int a AND word_of_int c"
  "(word_of_int (bor a c) :: 32 word) = word_of_int a OR word_of_int c"
  "(word_of_int (bnot a) :: 32 word) = NOT (word_of_int a)"
  "(word_of_int (shl a n) :: 32 word) = push_bit n (word_of_int a)"
  "(word_of_int (sar a n) :: 32 word) = signed_drop_bit n (word_of_int a)"
  by (simp_all add: band_def bor_def bnot_def shl_def sar_def)

lemma byte_masks:
  "(0xFF000000 :: 32 word) = push_bit 24 (mask 8)"
  "(0x00FF0000 :: 32 word) = push_bit 16 (mask 8)"
  "(0x0000FF00 :: 32 word) = push_bit 8 (mask 8)"
  "(0x000000FF :: 32 word) = mask 8"
  "(0x0000FFFF :: 32 word) = mask 16"
  "(0x7FFF :: 32 word) = mask 15"
  "(0x7FFF0000 :: 32 word) = push_bit 16 (mask 15)"
  "(0x80000000 :: 32 word) = push_bit 31 1"
  by (simp_all add: mask_eq_exp_minus_1 push_bit_eq_mult)

lemma bytes_recompose:
  fixes W :: "32 word"
  shows "((push_bit 24 (ucast (scast (signed_drop_bit 24 (W AND 0xFF000000)) :: 8 word))
       OR push_bit 16 (ucast (scast (signed_drop_bit 16 (W AND 0x00FF0000)) :: 8 word)))
       OR push_bit 8 (ucast (scast (signed_drop_bit 8 (W AND 0x0000FF00)) :: 8 word)))
       OR ucast (scast (W AND 0x000000FF) :: 8 word) = W"
  unfolding byte_masks
proof (rule bit_word_eqI)
  fix n
  assume "n < LENGTH(32)"
  then consider "n < 8" | "8 \<le> n" "n < 16" | "16 \<le> n" "n < 24" | "24 \<le> n" "n < 32"
    by fastforce
  then show "bit (((push_bit 24 (ucast (scast (signed_drop_bit 24 (W AND push_bit 24 (mask 8))) :: 8 word))
       OR push_bit 16 (ucast (scast (signed_drop_bit 16 (W AND push_bit 16 (mask 8))) :: 8 word)))
       OR push_bit 8 (ucast (scast (signed_drop_bit 8 (W AND push_bit 8 (mask 8))) :: 8 word)))
       OR ucast (scast (W AND mask 8) :: 8 word) :: 32 word) n \<longleftrightarrow> bit W n"
    by cases (auto simp add: bit_simps)
qed

lemma length_store [simp]: "length (store buf i v) = length buf"
  by (simp add: store_def)

lemma byte_store_same:
  "0 \<le> i \<Longrightarrow> i < int (length buf) \<Longrightarrow> byte (store buf i v) i = uint (word_of_int v :: 8 word)"
  by (simp add: byte_def store_def index_def)

lemma byte_store_other:
  "i \<noteq> j \<Longrightarrow> byte (store buf i v) j = byte buf j"
  by (auto simp: byte_def store_def index_def nat_eq_iff)

lemma getUint32_setUint32:
  assumes "0 \<le> off" "off + 4 \<le> int (length buf)"
  shows "getUint32 (setUint32 buf v off) off = sint (word_of_int v :: 32 word)"
proof -
  let ?W = "word_of_int v :: 32 word"
  have b0: "byte (setUint32 buf v off) (off + 0) = uint (word_of_int (sar (band v 0xFF000000) 24) :: 8 word)"
    using assms by (simp add: setUint32_def Let_def byte_store_same byte_store_other)
  have b1: "byte (setUint32 buf v off) (off + 1) = uint (word_of_int (sar (band v 0x00FF0000) 16) :: 8 word)"
    using assms by (simp add: setUint32_def Let_def byte_store_same byte_store_other)
  have b2: "byte (setUint32 buf v off) (off + 2) = uint (word_of_int (sar (band v 0x0000FF00) 8) :: 8 word)"
    using assms by (simp add: setUint32_def Let_def byte_store_same byte_store_other)
  have b3: "byte (setUint32 buf v off) (off + 3) = uint (word_of_int (band v 0x000000FF) :: 8 word)"
    using assms by (simp add: setUint32_def Let_def byte_store_same byte_store_other)
  have "getUint32 (setUint32 buf v off) off =
    sint (((push_bit 24 (ucast (scast (signed_drop_bit 24 (?W AND 0xFF000000)) :: 8 word))
       OR push_bit 16 (ucast (scast (signed_drop_bit 16 (?W AND 0x00FF0000)) :: 8 word)))
       OR push_bit 8 (ucast (scast (signed_drop_bit 8 (?W AND 0x0000FF00)) :: 8 word)))
       OR ucast (scast (?W AND 0x000000FF) :: 8 word) :: 32 word)"
    unfolding getUint32_def b0 b1 b2 b3
    by (simp add: bor_def shl_def sar_def band_def)
  then show ?thesis by (simp only: bytes_recompose)
qed

lemma raw_word:
  "(push_bit 16 (word_of_int (k div 65536) AND mask 16) OR word_of_int (k mod 65536) :: 32 word) = word_of_int k"
proof -
  have "k div 65536 = drop_bit 16 k" "k mod 65536 = take_bit 16 k"
    by (simp_all add: drop_bit_eq_div take_bit_eq_mod)
  then show ?thesis
    by (auto intro!: bit_word_eqI simp add: bit_simps)
qed

lemma floor_fixed:
  "\<lfloor>real_of_int k / 65536\<rfloor> = k div 65536"
  "\<lfloor>(real_of_int k / 65536 - real_of_int (k div 65536)) * 65536\<rfloor> = k mod 65536"
proof -
  show a: "\<lfloor>real_of_int k / 65536\<rfloor> = k div 65536"
    using floor_divide_of_int_eq [of k 65536, where ?'a = real] by simp
  have "(real_of_int k / 65536 - real_of_int (k div 65536)) * 65536
      = real_of_int (k - 65536 * (k div 65536))" by simp
  also have "k - 65536 * (k div 65536) = k mod 65536"
    by (simp add: minus_mult_div_eq_mod)
  finally show "\<lfloor>(real_of_int k / 65536 - real_of_int (k div 65536)) * 65536\<rfloor> = k mod 65536"
    by simp
qed

lemma decode_int_part:
  fixes W :: "32 word"
  shows "(if bit W 31 then NOT (NOT (signed_drop_bit 16 (W AND 0x7FFF0000)) AND 0x7FFF)
          else signed_drop_bit 16 (W AND 0x7FFF0000)) = signed_drop_bit 16 W"
  unfolding byte_masks
proof (rule bit_word_eqI)
  fix n
  assume "n < LENGTH(32)"
  then consider "n < 15" | "n = 15" | "16 \<le> n" "n < 32"
    by fastforce
  then show "bit (if bit W 31 then NOT (NOT (signed_drop_bit 16 (W AND push_bit 16 (mask 15))) AND mask 15)
          else signed_drop_bit 16 (W AND push_bit 16 (mask 15))) n \<longleftrightarrow> bit (signed_drop_bit 16 W) n"
    by cases (auto simp add: bit_simps)
qed

lemma sign_test:
  fixes W :: "32 word"
  shows "sint (W AND 0x80000000) \<noteq> 0 \<longleftrightarrow> bit W 31"
proof -
  have e: "(0x80000000 :: 32 word) = 2 ^ 31" by simp
  have "W AND 0x80000000 = 0 \<longleftrightarrow> \<not> bit W 31"
    unfolding e by (rule and_exp_eq_0_iff_not_bit)
  moreover have "sint (W AND 0x80000000) = 0 \<longleftrightarrow> W AND 0x80000000 = 0"
    by (rule signed_eq_0_iff)
  ultimately show ?thesis by simp
qed

lemma sint_small:
  assumes "0 \<le> m" "m < 65536"
  shows "sint (word_of_int m :: 32 word) = m"
proof -
  have "- (2 ^ 31) \<le> m" "m < 2 ^ 31" using assms by simp_all
  then show ?thesis
    by (simp add: sint_sbintrunc' signed_take_bit_int_eq_self)
qed

lemma getS15Fixed16_value:
  "getS15Fixed16 buf off =
     real_of_int (getUint32 buf off div 65536) + real_of_int (getUint32 buf off mod 65536) / 65536"
proof -
  let ?raw = "getUint32 buf off"
  let ?W = "word_of_int ?raw :: 32 word"
  have raw: "sint ?W = ?raw"
    by (simp add: getUint32_def bor_def)
  have neg: "band ?raw 0x80000000 \<noteq> 0 \<longleftrightarrow> bit ?W 31"
    unfolding band_def by (simp add: sign_test)
  have ip: "(if bit ?W 31 then bnot (band (bnot (sar (band ?raw 0x7FFF0000) 16)) 0x7FFF)
             else sar (band ?raw 0x7FFF0000) 16) = ?raw div 65536"
  proof -
    have "(if bit ?W 31 then bnot (band (bnot (sar (band ?raw 0x7FFF0000) 16)) 0x7FFF)
             else sar (band ?raw 0x7FFF0000) 16)
        = sint (if bit ?W 31 then NOT (NOT (signed_drop_bit 16 (?W AND 0x7FFF0000)) AND 0x7FFF)
          else signed_drop_bit 16 (?W AND 0x7FFF0000))"
      by (simp add: bnot_def band_def sar_def)
    also have "\<dots> = sint (signed_drop_bit 16 ?W)" by (simp only: decode_int_part)
    also have "\<dots> = drop_bit 16 ?raw"
      by (simp only: sint_signed_drop_bit_eq raw)
    also have "\<dots> = ?raw div 65536" by (simp add: drop_bit_eq_div)
    finally show ?thesis .
  qed
  have fp: "band ?raw 0x0000FFFF = ?raw mod 65536"
  proof -
    have m: "0 \<le> ?raw mod 65536" "?raw mod 65536 < 65536" by simp_all
    have "band ?raw 0x0000FFFF = sint (?W AND 0x0000FFFF)"
      by (simp add: band_def)
    also have "?W AND 0x0000FFFF = word_of_int (take_bit 16 ?raw)"
      unfolding byte_masks by (rule and_mask_wi)
    also have "take_bit 16 ?raw = ?raw mod 65536" by (simp add: take_bit_eq_mod)
    also have "sint (word_of_int (?raw mod 65536) :: 32 word) = ?raw mod 65536"
      by (rule sint_small [OF m])
    finally show ?thesis .
  qed
  show ?thesis
    unfolding getS15Fixed16_def Let_def neg ip fp by simp
qed

text \<open>
  C9. For every value \<open>v\<close> that is a multiple of \<open>1 / 65536\<close> with \<open>-32768 \<le> v < 32768\<close>,
  \<open>setS15Fixed16\<close> at an offset whose four bytes lie in the buffer and then
  \<open>getS15Fixed16\<close> at the same offset gives \<open>v\<close> exactly; negative values and \<open>-32768\<close>
  are included.
\<close>

theorem s15Fixed16_roundtrip:
  assumes rep: "\<exists>k::int. v = real_of_int k / 65536"
    and lo: "- 32768 \<le> v" and hi: "v < 32768"
    and off: "0 \<le> off" "off + 4 \<le> int (length buf)"
  shows "getS15Fixed16 (setS15Fixed16 buf v off) off = v"
proof -
  from rep obtain k :: int where v: "v = real_of_int k / 65536" ..
  have "- 2147483648 \<le> real_of_int k" "real_of_int k < 2147483648"
    using lo hi by (simp_all add: v field_simps)
  then have k: "- (2 ^ 31) \<le> k" "k < 2 ^ 31" by simp_all
  have "setS15Fixed16 buf v off =
      setUint32 buf (bor (shl (band (k div 65536) 0xFFFF) 16) (k mod 65536)) off"
    unfolding setS15Fixed16_def Let_def v by (simp only: floor_fixed)
  then have "getUint32 (setS15Fixed16 buf v off) off =
      sint (word_of_int (bor (shl (band (k div 65536) 0xFFFF) 16) (k mod 65536)) :: 32 word)"
    by (simp only: getUint32_setUint32 [OF off])
  also have "(word_of_int (bor (shl (band (k div 65536) 0xFFFF) 16) (k mod 65536)) :: 32 word)
      = word_of_int k"
  proof -
    have "(word_of_int (bor (shl (band (k div 65536) 0xFFFF) 16) (k mod 65536)) :: 32 word)
      = push_bit 16 (word_of_int (k div 65536) AND 0x0000FFFF) OR word_of_int (k mod 65536)"
      by (simp add: word_of_int_ops)
    also have "\<dots> = word_of_int k"
      unfolding byte_masks by (rule raw_word)
    finally show ?thesis .
  qed
  also have "sint (word_of_int k :: 32 word) = k"
    using k by (simp add: sint_sbintrunc' signed_take_bit_int_eq_self)
  finally have "getUint32 (setS15Fixed16 buf v off) off = k" .
  then have "getS15Fixed16 (setS15Fixed16 buf v off) off
      = real_of_int (k div 65536) + real_of_int (k mod 65536) / 65536"
    by (simp only: getS15Fixed16_value)
  also have "\<dots> = v"
  proof -
    have "real_of_int (k div 65536 * 65536 + k mod 65536) = real_of_int k"
      by (simp only: div_mult_mod_eq)
    then have "real_of_int (k div 65536) * 65536 + real_of_int (k mod 65536) = real_of_int k"
      by (simp only: of_int_add of_int_mult of_int_numeral)
    then have "real_of_int k / 65536 = real_of_int (k div 65536) + real_of_int (k mod 65536) / 65536"
      by (simp add: field_simps)
    then show ?thesis by (simp only: v)
  qed
  finally show ?thesis .
qed

theorem s15Fixed16_roundtrip_witness:
  "(\<exists>k::int. (- 32768 :: real) = real_of_int k / 65536)
   \<and> (- 32768 :: real) \<le> - 32768 \<and> (- 32768 :: real) < 32768
   \<and> (0::int) \<le> 0 \<and> 0 + 4 \<le> int (length [0, 0, 0, 0 :: 8 word])
   \<and> getS15Fixed16 (setS15Fixed16 [0, 0, 0, 0] (- 32768) 0) 0 = - 32768"
proof -
  have "(- 32768 :: real) = real_of_int (- 2147483648) / 65536" by simp
  then have rep: "\<exists>k::int. (- 32768 :: real) = real_of_int k / 65536" ..
  have off: "(0::int) \<le> 0" "0 + 4 \<le> int (length [0, 0, 0, 0 :: 8 word])" by simp_all
  have "getS15Fixed16 (setS15Fixed16 [0, 0, 0, 0] (- 32768) 0) 0 = - 32768"
    by (rule s15Fixed16_roundtrip [OF rep _ _ off]) simp_all
  moreover have "(- 32768 :: real) \<le> - 32768" "(- 32768 :: real) < 32768" by simp_all
  ultimately show ?thesis using rep off by (intro conjI)
qed

subsection \<open>The header\<close>

lemma getHeader_fields:
  assumes "getHeader buf off = Inr h"
  shows "profileSize h = getUint32 buf (off + 0)"
    "preferredCmmType h = getSignature buf (off + 4)"
    "profileClass h = getSignature buf 12"
    "profileSpace h = getSignature buf 16"
    "pcsSpace h = getSignature buf 20"
  using assms by (auto simp: getHeader_def Let_def split: sum.splits)

lemma getUint64_in_range:
  assumes "0 \<le> off" "off + 8 \<le> int (length buf)"
  shows "\<exists>v. getUint64 buf off = Inr v"
proof -
  have "\<And>acc. n \<le> 8 \<Longrightarrow> \<exists>v. getUint64_from buf off n acc = Inr v" for n
  proof (induction n)
    case 0
    then show ?case by simp
  next
    case (Suc n)
    have "index buf (off + 7 - int n) = Some (buf ! nat (off + 7 - int n))"
      using assms Suc.prems by (simp add: index_def)
    then show ?case using Suc by (simp add: BigInt_def)
  qed
  then show ?thesis by (simp add: getUint64_def)
qed

lemma getHeader_in_range:
  assumes "64 \<le> length buf"
  shows "\<exists>h. getHeader buf off = Inr h"
proof -
  obtain v where "getUint64 buf 56 = Inr v"
    using getUint64_in_range [of 56 buf] assms by auto
  then show ?thesis by (simp add: getHeader_def Let_def)
qed

lemma example_signatures:
  "getSignature example_embedded 16 = ''mntr''"
  "getSignature example_embedded 20 = ''RGB ''"
  "getSignature example_header 12 = ''mntr''"
  "getSignature example_header 16 = ''RGB ''"
  "getSignature example_header 20 = ''XYZ ''"
  by (simp_all add: getSignature_def subarray_def example_embedded_def example_header_def
      bytes_of_def char_of_def)

lemma example_sizes:
  "getUint32 example_embedded (4 + 0) = 128"
  "getUint32 example_header (0 + 0) = 128"
  by (simp_all add: getUint32_def byte_def index_def example_embedded_def example_header_def
      bytes_of_def bor_def shl_def)

text \<open>
  C2. The code on a header embedded at \<open>start = 4\<close>: the size is read at \<open>start + 0\<close>,
  but the profile class, the colour space and the connection space are read at the
  absolute offsets 12, 16 and 20. The colour space of the embedded profile comes out as
  \<open>mntr\<close> (its class) and its connection space as \<open>RGB \<close> (its colour space), where the
  same 128 bytes at \<open>start = 0\<close> give \<open>RGB \<close> and \<open>XYZ \<close>.
\<close>

theorem getHeader_embedded:
  "drop 4 example_embedded = example_header
   \<and> (\<exists>h. getHeader example_embedded 4 = Inr h \<and> profileSize h = 128
          \<and> profileSpace h = ''mntr'' \<and> pcsSpace h = ''RGB '')
   \<and> (\<exists>h. getHeader example_header 0 = Inr h \<and> profileSize h = 128
          \<and> profileClass h = ''mntr'' \<and> profileSpace h = ''RGB '' \<and> pcsSpace h = ''XYZ '')"
proof -
  have len: "64 \<le> length example_embedded" "64 \<le> length example_header"
    by (simp_all add: example_embedded_def example_header_def bytes_of_def)
  obtain h1 where h1: "getHeader example_embedded 4 = Inr h1"
    using getHeader_in_range [OF len(1)] by blast
  obtain h0 where h0: "getHeader example_header 0 = Inr h0"
    using getHeader_in_range [OF len(2)] by blast
  have "drop 4 example_embedded = example_header"
    by (simp add: example_embedded_def)
  moreover have "profileSize h1 = 128 \<and> profileSpace h1 = ''mntr'' \<and> pcsSpace h1 = ''RGB ''"
    by (simp only: getHeader_fields [OF h1] example_signatures example_sizes)
  moreover have "profileSize h0 = 128 \<and> profileClass h0 = ''mntr'' \<and> profileSpace h0 = ''RGB ''
      \<and> pcsSpace h0 = ''XYZ ''"
    by (simp only: getHeader_fields [OF h0] example_signatures example_sizes)
  ultimately show ?thesis using h1 h0 by blast
qed

text \<open>The example header parses to the example record.\<close>

lemma byte_example_header_zero:
  assumes "24 \<le> i"
  shows "byte example_header i = 0"
proof (cases "i < 128")
  case True
  have "example_header ! nat i = (replicate 104 0 :: buffer) ! (nat i - 24)"
    using assms True by (simp add: example_header_def bytes_of_def nth_append)
  also have "\<dots> = 0" using assms True by simp
  finally show ?thesis using assms True
    by (simp add: byte_def index_def example_header_def bytes_of_def)
next
  case False
  then show ?thesis by (simp add: byte_def index_def example_header_def bytes_of_def)
qed

lemma getUint32_zero: "24 \<le> i \<Longrightarrow> getUint32 example_header i = 0"
  by (simp add: getUint32_def byte_example_header_zero bor_def shl_def)

lemma getUint16_zero: "24 \<le> i \<Longrightarrow> getUint16 example_header i = 0"
  by (simp add: getUint16_def byte_example_header_zero bor_def shl_def)

lemma getS15Fixed16_zero: "24 \<le> i \<Longrightarrow> getS15Fixed16 example_header i = 0"
  by (simp add: getS15Fixed16_def getUint32_zero band_def sar_def)

lemma getSignature_zero:
  "getSignature example_header 40 = [CHR 0x00, CHR 0x00, CHR 0x00, CHR 0x00]"
  "getSignature example_header 48 = [CHR 0x00, CHR 0x00, CHR 0x00, CHR 0x00]"
  "getSignature example_header 52 = [CHR 0x00, CHR 0x00, CHR 0x00, CHR 0x00]"
  by (simp_all add: getSignature_def subarray_def example_header_def bytes_of_def char_of_def
      eval_nat_numeral)

lemma getUint64_zero: "getUint64 example_header 56 = Inr 0"
proof -
  have i: "\<And>j. 56 \<le> j \<Longrightarrow> j < 64 \<Longrightarrow> index example_header j = Some 0"
  proof -
    fix j :: int assume j: "56 \<le> j" "j < 64"
    have "example_header ! nat j = (replicate 104 0 :: buffer) ! (nat j - 24)"
      using j by (simp add: example_header_def bytes_of_def nth_append)
    also have "\<dots> = 0" using j by simp
    finally show "index example_header j = Some 0"
      using j by (simp add: index_def example_header_def bytes_of_def)
  qed
  show ?thesis
    by (simp add: getUint64_def eval_nat_numeral i BigInt_def)
qed

lemma getHeader_example: "getHeader example_header 0 = Inr example_icc_header"
proof -
  have v: "index example_header 8 = Some 2" "byte example_header 9 = 16"
    by (simp_all add: index_def byte_def example_header_def bytes_of_def)
  have sg: "getSignature example_header 4 = ''ADBE''"
    by (simp add: getSignature_def subarray_def example_header_def bytes_of_def char_of_def)
  have sz: "getUint32 example_header 0 = 128"
    using example_sizes(2) by simp
  have ver: "sar (band 16 0xF0) 4 = 1" "band 16 0x0F = 0"
    by (simp_all add: sar_def band_def)
  show ?thesis
    unfolding getHeader_def Let_def
    by (simp add: v sg sz ver example_signatures getUint32_zero getUint16_zero
        getS15Fixed16_zero getSignature_zero getUint64_zero getDatetime_def getXyz_def
        Number_def example_icc_header_def)
qed

subsection \<open>The tag table\<close>




lemma getTagTable_count_0:
  assumes "getUint32 buf (start + off) \<le> 0"
  shows "getTagTable buf start off = Inr Map.empty"
  using assms by (simp add: getTagTable_def getTagTable_loop.simps)







subsection \<open>Parsing the example buffers\<close>

text \<open>
  A read at an offset below the length of the first part of a buffer does not see the
  second part, and a read at an offset from that length on sees only the second.
\<close>

lemma length_example_header: "length example_header = 128"
  by (simp add: example_header_def bytes_of_def)

lemma index_append_left: "i < int (length pre) \<Longrightarrow> index (pre @ post) i = index pre i"
  by (auto simp: index_def nth_append nat_less_iff)

lemma index_append_right:
  "int (length pre) \<le> i \<Longrightarrow> index (pre @ post) i = index post (i - int (length pre))"
  by (auto simp: index_def nth_append nat_diff_distrib)

lemma byte_append_left: "i < int (length pre) \<Longrightarrow> byte (pre @ post) i = byte pre i"
  by (simp add: byte_def index_append_left)

lemma byte_append_right:
  "int (length pre) \<le> i \<Longrightarrow> byte (pre @ post) i = byte post (i - int (length pre))"
  by (simp add: byte_def index_append_right)

lemma getUint16_append_left:
  "off + 2 \<le> int (length pre) \<Longrightarrow> getUint16 (pre @ post) off = getUint16 pre off"
  by (simp add: getUint16_def byte_append_left)

lemma getUint32_append_left:
  "off + 4 \<le> int (length pre) \<Longrightarrow> getUint32 (pre @ post) off = getUint32 pre off"
  by (simp add: getUint32_def byte_append_left)

lemma getUint32_append_right:
  "int (length pre) \<le> off \<Longrightarrow> getUint32 (pre @ post) off = getUint32 post (off - int (length pre))"
  by (simp add: getUint32_def byte_append_right algebra_simps)

lemma subarray_append_left:
  assumes "0 \<le> s" "s \<le> e" "e \<le> int (length pre)"
  shows "subarray (pre @ post) s e = subarray pre s e"
  using assms by (simp add: subarray_def Let_def min_def)

lemma subarray_append_right:
  assumes "int (length pre) \<le> s"
  shows "subarray (pre @ post) s (s + 4) = subarray post (s - int (length pre)) (s - int (length pre) + 4)"
proof -
  have "nat (min s (int (length pre) + int (length post))) =
      length pre + nat (min (s - int (length pre)) (int (length post)))"
    using assms by (auto simp: min_def nat_add_distrib nat_diff_distrib)
  moreover have "min (s + 4) (int (length pre) + int (length post)) - min s (int (length pre) + int (length post))
     = min (s - int (length pre) + 4) (int (length post)) - min (s - int (length pre)) (int (length post))"
    by (simp add: min_def)
  ultimately show ?thesis
    using assms by (simp add: subarray_def Let_def)
qed

lemma getSignature_append_left:
  "0 \<le> off \<Longrightarrow> off + 4 \<le> int (length pre) \<Longrightarrow> getSignature (pre @ post) off = getSignature pre off"
  by (simp add: getSignature_def subarray_append_left)

lemma getSignature_append_right:
  "int (length pre) \<le> off \<Longrightarrow>
   getSignature (pre @ post) off = getSignature post (off - int (length pre))"
  by (simp add: getSignature_def subarray_append_right)

lemma getS15Fixed16_append_left:
  "off + 4 \<le> int (length pre) \<Longrightarrow> getS15Fixed16 (pre @ post) off = getS15Fixed16 pre off"
  by (simp add: getS15Fixed16_def getUint32_append_left)

lemma getUint64_from_append_left:
  "off + 8 \<le> int (length pre) \<Longrightarrow>
   getUint64_from (pre @ post) off n acc = getUint64_from pre off n acc"
  by (induction n arbitrary: acc) (simp_all add: index_append_left split: sum.splits)

lemma getHeader_append_left:
  assumes "128 \<le> length pre"
  shows "getHeader (pre @ post) 0 = getHeader pre 0"
  using assms
  by (simp add: getHeader_def Let_def getUint32_append_left getSignature_append_left index_append_left
      byte_append_left getDatetime_def getUint16_append_left getXyz_def getS15Fixed16_append_left
      getUint64_def getUint64_from_append_left split: sum.splits)

lemma getUint16_append_right:
  "int (length pre) \<le> off \<Longrightarrow> getUint16 (pre @ post) off = getUint16 post (off - int (length pre))"
  by (simp add: getUint16_def byte_append_right algebra_simps)

lemma getS15Fixed16_append_right:
  "int (length pre) \<le> off \<Longrightarrow>
   getS15Fixed16 (pre @ post) off = getS15Fixed16 post (off - int (length pre))"
  by (simp add: getS15Fixed16_def getUint32_append_right)

lemma getXyz_append_right:
  "int (length pre) \<le> off \<Longrightarrow> getXyz (pre @ post) off = getXyz post (off - int (length pre))"
  by (simp add: getXyz_def getS15Fixed16_append_right algebra_simps)

text \<open>The buffer with the tag count 0, and the one whose only tag has no parser.\<close>

lemma getHeader_example_prefix:
  "getHeader (example_header @ post) 0 = Inr example_icc_header"
  by (simp add: getHeader_append_left length_example_header getHeader_example)

lemma getTagTable_no_tags: "getTagTable example_buffer_no_tags 0 128 = Inr Map.empty"
proof -
  have "getUint32 example_buffer_no_tags (0 + 128) = getUint32 [0, 0, 0, 0] 0"
    unfolding example_buffer_no_tags_def
    by (simp add: getUint32_append_right length_example_header)
  also have "\<dots> = 0"
    by (simp add: getUint32_def byte_def index_def bor_def shl_def)
  finally show ?thesis
    by (intro getTagTable_count_0) simp
qed

lemma parseIcc_no_tags: "parseIcc example_buffer_no_tags 0 = Inr example_no_tags"
  using getHeader_example_prefix [of "[0, 0, 0, 0]"]
  by (simp add: parseIcc_def getTagTable_no_tags example_no_tags_def
      example_buffer_no_tags_def [symmetric])

lemma example_table_untyped_rXYZ_reads:
  "getUint32 example_table_untyped_rXYZ 0 = 1" "getSignature example_table_untyped_rXYZ 4 = ''rXYZ''"
  "getUint32 example_table_untyped_rXYZ 8 = 144" "getUint32 example_table_untyped_rXYZ 12 = 8"
  "getSignature example_table_untyped_rXYZ 16 = ''text''"
  by (simp_all add: example_table_untyped_rXYZ_def bytes_of_def getUint32_def byte_def index_def bor_def shl_def
      getSignature_def subarray_def Let_def char_of_def)

lemma getTagTable_untyped_rXYZ:
  "getTagTable example_buffer_untyped_rXYZ 0 128 =
     Inr [''rXYZ'' \<mapsto> \<lparr>signature = ''rXYZ'', offset = 144, size_tag = 8, data = None\<rparr>]"
proof -
  note buf = example_buffer_untyped_rXYZ_def
  have r: "getUint32 example_buffer_untyped_rXYZ 128 = 1"
    "getSignature example_buffer_untyped_rXYZ 132 = ''rXYZ''"
    "getUint32 example_buffer_untyped_rXYZ 136 = 144"
    "getUint32 example_buffer_untyped_rXYZ 140 = 8"
    "getSignature example_buffer_untyped_rXYZ 144 = ''text''"
    unfolding buf
    by (simp_all add: getUint32_append_right getSignature_append_right length_example_header
        example_table_untyped_rXYZ_reads)
  have p: "tagDataParsers ''text'' = None"
    by (simp add: tagDataParsers_def)
  show ?thesis
    by (simp add: getTagTable_def getTagTable_loop.simps [of _ _ _ _ 0]
        getTagTable_loop.simps [of _ _ _ _ 1] r p Let_def)
qed

lemma parseIcc_untyped_rXYZ: "parseIcc example_buffer_untyped_rXYZ 0 = Inr example_untyped_rXYZ"
proof -
  have "getHeader example_buffer_untyped_rXYZ 0 = Inr example_icc_header"
    unfolding example_buffer_untyped_rXYZ_def by (rule getHeader_example_prefix)
  then show ?thesis
    by (simp add: parseIcc_def getTagTable_untyped_rXYZ example_untyped_rXYZ_def)
qed

text \<open>The buffer with the six tags of an RGB profile.\<close>

lemma example_table_rgb_list:
  "example_table_rgb = [0, 0, 0, 6,
     114, 88, 89, 90, 0, 0, 0, 204, 0, 0, 0, 20,
     103, 88, 89, 90, 0, 0, 0, 224, 0, 0, 0, 20,
     98, 88, 89, 90, 0, 0, 0, 244, 0, 0, 0, 20,
     114, 84, 82, 67, 0, 0, 1, 8, 0, 0, 0, 16,
     103, 84, 82, 67, 0, 0, 1, 24, 0, 0, 0, 12,
     98, 84, 82, 67, 0, 0, 1, 36, 0, 0, 0, 14,
     88, 89, 90, 32, 0, 0, 0, 0, 0, 1, 0, 0, 0, 0, 0, 0, 0, 0, 0, 0,
     88, 89, 90, 32, 0, 0, 0, 0, 0, 0, 0, 0, 0, 1, 0, 0, 0, 0, 0, 0,
     88, 89, 90, 32, 0, 0, 0, 0, 0, 0, 0, 0, 0, 0, 0, 0, 0, 1, 0, 0,
     99, 117, 114, 118, 0, 0, 0, 0, 0, 0, 0, 2, 0, 0, 255, 255,
     99, 117, 114, 118, 0, 0, 0, 0, 0, 0, 0, 0,
     99, 117, 114, 118, 0, 0, 0, 0, 0, 0, 0, 1, 2, 0]"
  by (simp add: example_table_rgb_def bytes_of_def)

lemma example_table_rgb_entries:
  "getUint32 example_table_rgb 0 = 6"
  "getSignature example_table_rgb 4 = ''rXYZ''"
  "getUint32 example_table_rgb 8 = 204" "getUint32 example_table_rgb 12 = 20"
  "getSignature example_table_rgb 16 = ''gXYZ''"
  "getUint32 example_table_rgb 20 = 224" "getUint32 example_table_rgb 24 = 20"
  "getSignature example_table_rgb 28 = ''bXYZ''"
  "getUint32 example_table_rgb 32 = 244" "getUint32 example_table_rgb 36 = 20"
  "getSignature example_table_rgb 40 = ''rTRC''"
  "getUint32 example_table_rgb 44 = 264" "getUint32 example_table_rgb 48 = 16"
  "getSignature example_table_rgb 52 = ''gTRC''"
  "getUint32 example_table_rgb 56 = 280" "getUint32 example_table_rgb 60 = 12"
  "getSignature example_table_rgb 64 = ''bTRC''"
  "getUint32 example_table_rgb 68 = 292" "getUint32 example_table_rgb 72 = 14"
  unfolding example_table_rgb_list
  by (simp_all add: getUint32_def byte_def index_def bor_def shl_def
      getSignature_def subarray_def Let_def char_of_def)

lemma example_table_rgb_types:
  "getSignature example_table_rgb 76 = ''XYZ ''" "getSignature example_table_rgb 96 = ''XYZ ''"
  "getSignature example_table_rgb 116 = ''XYZ ''" "getSignature example_table_rgb 136 = ''curv''"
  "getSignature example_table_rgb 152 = ''curv''" "getSignature example_table_rgb 164 = ''curv''"
  unfolding example_table_rgb_list
  by (simp_all add: getSignature_def subarray_def Let_def char_of_def)

lemma example_table_rgb_words:
  "getUint32 example_table_rgb 84 = 65536" "getUint32 example_table_rgb 88 = 0"
  "getUint32 example_table_rgb 92 = 0"
  "getUint32 example_table_rgb 104 = 0" "getUint32 example_table_rgb 108 = 65536"
  "getUint32 example_table_rgb 112 = 0"
  "getUint32 example_table_rgb 124 = 0" "getUint32 example_table_rgb 128 = 0"
  "getUint32 example_table_rgb 132 = 65536"
  "getUint32 example_table_rgb 144 = 2" "getUint32 example_table_rgb 160 = 0"
  "getUint32 example_table_rgb 172 = 1"
  "getUint16 example_table_rgb 148 = 0" "getUint16 example_table_rgb 150 = 65535"
  "getUint16 example_table_rgb 176 = 512"
  unfolding example_table_rgb_list
  by (simp_all add: getUint32_def getUint16_def byte_def index_def bor_def shl_def)

lemma example_table_rgb_xyz:
  "getXyz example_table_rgb 84 = \<lparr>x = 1, y = 0, z = 0\<rparr>"
  "getXyz example_table_rgb 104 = \<lparr>x = 0, y = 1, z = 0\<rparr>"
  "getXyz example_table_rgb 124 = \<lparr>x = 0, y = 0, z = 1\<rparr>"
  by (simp_all add: getXyz_def getS15Fixed16_value example_table_rgb_words)

lemma parse_XYZ_20:
  "parse_XYZ buf off 20 = Inr (XyzData [getXyz buf (off + 8)])"
proof -
  have "XYZ_loop buf off 20 (off + 8) [] = XYZ_loop buf off 20 (off + 8 + 12) [getXyz buf (off + 8)]"
    by (subst XYZ_loop.simps) simp
  also have "\<dots> = [getXyz buf (off + 8)]"
    by (subst XYZ_loop.simps) simp
  finally show ?thesis by (simp add: parse_XYZ_def)
qed

lemma example_buffer_rgb_tags:
  "parse_XYZ example_buffer_rgb 204 20 = Inr (XyzData [\<lparr>x = 1, y = 0, z = 0\<rparr>])"
  "parse_XYZ example_buffer_rgb 224 20 = Inr (XyzData [\<lparr>x = 0, y = 1, z = 0\<rparr>])"
  "parse_XYZ example_buffer_rgb 244 20 = Inr (XyzData [\<lparr>x = 0, y = 0, z = 1\<rparr>])"
  "parse_curv example_buffer_rgb 264 16 = Inr (CurveData [0, 0xFFFF])"
  "parse_curv example_buffer_rgb 280 12 = Inr (CurveData [])"
  "parse_curv example_buffer_rgb 292 14 = Inr (CurveData [0x0200])"
  unfolding example_buffer_rgb_def
  by (simp_all add: parse_XYZ_20 getXyz_append_right length_example_header example_table_rgb_xyz
      parse_curv_def getUint32_append_right getUint16_append_right example_table_rgb_words
      curv_loop.simps [of _ _ _ 0] curv_loop.simps [of _ _ _ 1] curv_loop.simps [of _ _ _ 2])

lemma getTagTable_rgb: "getTagTable example_buffer_rgb 0 128 = Inr example_tags"
proof -
  have r: "getUint32 example_buffer_rgb 128 = 6"
    "getSignature example_buffer_rgb 132 = ''rXYZ''"
    "getUint32 example_buffer_rgb 136 = 204" "getUint32 example_buffer_rgb 140 = 20"
    "getSignature example_buffer_rgb 144 = ''gXYZ''"
    "getUint32 example_buffer_rgb 148 = 224" "getUint32 example_buffer_rgb 152 = 20"
    "getSignature example_buffer_rgb 156 = ''bXYZ''"
    "getUint32 example_buffer_rgb 160 = 244" "getUint32 example_buffer_rgb 164 = 20"
    "getSignature example_buffer_rgb 168 = ''rTRC''"
    "getUint32 example_buffer_rgb 172 = 264" "getUint32 example_buffer_rgb 176 = 16"
    "getSignature example_buffer_rgb 180 = ''gTRC''"
    "getUint32 example_buffer_rgb 184 = 280" "getUint32 example_buffer_rgb 188 = 12"
    "getSignature example_buffer_rgb 192 = ''bTRC''"
    "getUint32 example_buffer_rgb 196 = 292" "getUint32 example_buffer_rgb 200 = 14"
    "getSignature example_buffer_rgb 204 = ''XYZ ''" "getSignature example_buffer_rgb 224 = ''XYZ ''"
    "getSignature example_buffer_rgb 244 = ''XYZ ''" "getSignature example_buffer_rgb 264 = ''curv''"
    "getSignature example_buffer_rgb 280 = ''curv''" "getSignature example_buffer_rgb 292 = ''curv''"
    unfolding example_buffer_rgb_def
    by (simp_all add: getUint32_append_right getSignature_append_right length_example_header
        example_table_rgb_entries example_table_rgb_types)
  have p: "tagDataParsers ''XYZ '' = Some parse_XYZ" "tagDataParsers ''curv'' = Some parse_curv"
    by (simp_all add: tagDataParsers_def)
  show ?thesis
    by (simp add: getTagTable_def getTagTable_loop.simps [of _ _ _ _ 0]
        getTagTable_loop.simps [of _ _ _ _ 1] getTagTable_loop.simps [of _ _ _ _ 2]
        getTagTable_loop.simps [of _ _ _ _ 3] getTagTable_loop.simps [of _ _ _ _ 4]
        getTagTable_loop.simps [of _ _ _ _ 5] getTagTable_loop.simps [of _ _ _ _ 6]
        r p example_buffer_rgb_tags Let_def example_tags_def)
qed

lemma parseIcc_rgb: "parseIcc example_buffer_rgb 0 = Inr example_icc"
proof -
  have "getHeader example_buffer_rgb 0 = Inr example_icc_header"
    unfolding example_buffer_rgb_def by (rule getHeader_example_prefix)
  then show ?thesis
    by (simp add: parseIcc_def getTagTable_rgb example_icc_def)
qed

subsection \<open>The ICC RGB profile\<close>

lemma values_0_None [simp]: "values_0 None = Inl (TypeError ''data'')"
  by (simp add: values_0_def)

lemma curveOf_data_None [simp]: "curveOf_data None = Inl (TypeError ''data'')"
  by (simp add: curveOf_data_def)

lemma values_0_Inl:
  "values_0 t = Inl e \<Longrightarrow> e = TypeError ''data'' \<or> e = TypeError ''values'' \<or> e = TypeError ''0''"
  by (auto simp: values_0_def split: option.splits TagData.splits)

lemma values_0_Inr: "values_0 t = Inr v \<Longrightarrow> t \<noteq> None"
  by (cases t) (simp_all add: values_0_def)

lemma curveOf_data_Inl:
  "curveOf_data t = Inl e \<Longrightarrow>
   e = TypeError ''data'' \<or> e = TypeError ''values'' \<or> e = TypeError ''length''"
  by (auto simp: curveOf_data_def split: option.splits TagData.splits)

lemma curveOf_data_Inr: "curveOf_data t = Inr c \<Longrightarrow> t \<noteq> None"
  by (cases t) (simp_all add: curveOf_data_def)

lemma new_IccRgbProfile_missing_tag:
  assumes "tags icc ''rXYZ'' = None \<or> tags icc ''gXYZ'' = None \<or> tags icc ''bXYZ'' = None
       \<or> tags icc ''rTRC'' = None \<or> tags icc ''gTRC'' = None \<or> tags icc ''bTRC'' = None"
  shows "new_IccRgbProfile icc = Inl (TypeError ''data'')
       \<or> new_IccRgbProfile icc = Inl (TypeError ''values'')
       \<or> new_IccRgbProfile icc = Inl (TypeError ''0'')
       \<or> new_IccRgbProfile icc = Inl (TypeError ''x'')
       \<or> new_IccRgbProfile icc = Inl (TypeError ''length'')"
proof (cases "values_0 (tags icc ''rXYZ'')")
  case (Inl e)
  then have "new_IccRgbProfile icc = Inl e" by (simp add: new_IccRgbProfile_def)
  with values_0_Inl [OF Inl] show ?thesis by auto
next
  case r: (Inr rv)
  show ?thesis
  proof (cases "values_0 (tags icc ''gXYZ'')")
    case (Inl e)
    then have "new_IccRgbProfile icc = Inl e" by (simp add: new_IccRgbProfile_def r)
    with values_0_Inl [OF Inl] show ?thesis by auto
  next
    case g: (Inr gv)
    show ?thesis
    proof (cases "values_0 (tags icc ''bXYZ'')")
      case (Inl e)
      then have "new_IccRgbProfile icc = Inl e" by (simp add: new_IccRgbProfile_def r g)
      with values_0_Inl [OF Inl] show ?thesis by auto
    next
      case b: (Inr bv)
      show ?thesis
      proof (cases "rv = Undefined \<or> gv = Undefined \<or> bv = Undefined")
        case True
        then have "new_IccRgbProfile icc = Inl (TypeError ''x'')"
          by (simp add: new_IccRgbProfile_def r g b)
        then show ?thesis by simp
      next
        case u: False
        show ?thesis
        proof (cases "curveOf_data (tags icc ''rTRC'')")
          case (Inl e)
          then have "new_IccRgbProfile icc = Inl e"
            using u by (simp add: new_IccRgbProfile_def r g b)
          with curveOf_data_Inl [OF Inl] show ?thesis by auto
        next
          case rc: (Inr c0)
          show ?thesis
          proof (cases "curveOf_data (tags icc ''gTRC'')")
            case (Inl e)
            then have "new_IccRgbProfile icc = Inl e"
              using u by (simp add: new_IccRgbProfile_def r g b rc)
            with curveOf_data_Inl [OF Inl] show ?thesis by auto
          next
            case gc: (Inr c1)
            show ?thesis
            proof (cases "curveOf_data (tags icc ''bTRC'')")
              case (Inl e)
              then have "new_IccRgbProfile icc = Inl e"
                using u by (simp add: new_IccRgbProfile_def r g b rc gc)
              with curveOf_data_Inl [OF Inl] show ?thesis by auto
            next
              case bc: (Inr c2)
              from assms values_0_Inr [OF r] values_0_Inr [OF g] values_0_Inr [OF b]
                curveOf_data_Inr [OF rc] curveOf_data_Inr [OF gc] curveOf_data_Inr [OF bc]
              show ?thesis by simp
            qed
          qed
        qed
      qed
    qed
  qed
qed

lemma new_IccRgbProfile_Some:
  assumes "new_IccRgbProfile icc = Inr (Some p)"
  shows "\<exists>rc gc bc.
      curveOf_data (tags icc ''rTRC'') = Inr (Some rc) \<and> curveOf_data (tags icc ''gTRC'') = Inr (Some gc)
    \<and> curveOf_data (tags icc ''bTRC'') = Inr (Some bc)
    \<and> IccRgbProfile.trc p = [rc, gc, bc] \<and> rgbMatrix p = invertMat (xyzMatrix p)
    \<and> IccRgbProfile.serializable p = icc"
  using assms
  by (auto simp: new_IccRgbProfile_def Let_def
      split: sum.splits if_splits first_value.splits option.splits)

lemma profileOf_no_tags: "profileOf example_no_tags = Inl (TypeError ''data'')"
  by (simp add: profileOf_def new_IccRgbProfile_def example_no_tags_def
      example_icc_header_def ColorSpace_RGB_def)

lemma profileOf_untyped_rXYZ: "profileOf example_untyped_rXYZ = Inl (TypeError ''values'')"
  by (simp add: profileOf_def new_IccRgbProfile_def values_0_def example_untyped_rXYZ_def
      example_icc_header_def ColorSpace_RGB_def)

text \<open>
  C3, as amended. For every profile description whose header has the colour space
  \<open>RGB \<close> and whose tag table lacks one of \<open>rXYZ\<close>, \<open>gXYZ\<close>, \<open>bXYZ\<close>, \<open>rTRC\<close>, \<open>gTRC\<close>, \<open>bTRC\<close>
  (so for every such result of \<open>parseIcc\<close>), \<open>profileOf\<close> fails with the \<open>TypeError\<close> of a
  property read from \<open>undefined\<close>: \<open>data\<close> of the absent tag or, from a tag read before it,
  \<open>values\<close> of absent data, \<open>0\<close> or \<open>length\<close> of the \<open>values\<close> that a chromaticity payload
  has not, or \<open>x\<close> of a first value that is not there. None of these names a tag.
\<close>

theorem profileOf_missing_tag:
  assumes "profileSpace (header icc) = ColorSpace_RGB"
    and "tags icc ''rXYZ'' = None \<or> tags icc ''gXYZ'' = None \<or> tags icc ''bXYZ'' = None
       \<or> tags icc ''rTRC'' = None \<or> tags icc ''gTRC'' = None \<or> tags icc ''bTRC'' = None"
  shows "profileOf icc = Inl (TypeError ''data'') \<or> profileOf icc = Inl (TypeError ''values'')
       \<or> profileOf icc = Inl (TypeError ''0'') \<or> profileOf icc = Inl (TypeError ''x'')
       \<or> profileOf icc = Inl (TypeError ''length'')"
proof -
  have "profileOf icc = new_IccRgbProfile icc"
    using assms(1) by (simp add: profileOf_def)
  with new_IccRgbProfile_missing_tag [OF assms(2)] show ?thesis
    by simp
qed

theorem profileOf_missing_tag_witness:
  "parseIcc example_buffer_untyped_rXYZ 0 = Inr example_untyped_rXYZ
   \<and> profileSpace (header example_untyped_rXYZ) = ColorSpace_RGB
   \<and> tags example_untyped_rXYZ ''gXYZ'' = None
   \<and> (profileOf example_untyped_rXYZ = Inl (TypeError ''data'')
       \<or> profileOf example_untyped_rXYZ = Inl (TypeError ''values'')
       \<or> profileOf example_untyped_rXYZ = Inl (TypeError ''0'')
       \<or> profileOf example_untyped_rXYZ = Inl (TypeError ''x'')
       \<or> profileOf example_untyped_rXYZ = Inl (TypeError ''length''))
   \<and> profileOf example_untyped_rXYZ = Inl (TypeError ''values'')"
proof -
  have h: "profileSpace (header example_untyped_rXYZ) = ColorSpace_RGB"
    by (simp add: example_untyped_rXYZ_def example_icc_header_def ColorSpace_RGB_def)
  have t: "tags example_untyped_rXYZ ''gXYZ'' = None"
    by (simp add: example_untyped_rXYZ_def)
  have "profileOf example_untyped_rXYZ = Inl (TypeError ''data'')
       \<or> profileOf example_untyped_rXYZ = Inl (TypeError ''values'')
       \<or> profileOf example_untyped_rXYZ = Inl (TypeError ''0'')
       \<or> profileOf example_untyped_rXYZ = Inl (TypeError ''x'')
       \<or> profileOf example_untyped_rXYZ = Inl (TypeError ''length'')"
    by (rule profileOf_missing_tag [OF h]) (simp add: t)
  with parseIcc_untyped_rXYZ h t profileOf_untyped_rXYZ show ?thesis
    by (intro conjI)
qed

text \<open>
  C3 as stated fails: the buffer that holds the example header and the tag count 0
  parses to the description with the colour space \<open>RGB \<close> and no tag at all, and
  \<open>profileOf\<close> of it fails with the \<open>TypeError\<close> of reading \<open>data\<close> from \<open>undefined\<close>, the
  null-dereference, which names no tag.
\<close>

theorem profileOf_no_tags_counterexample:
  "parseIcc example_buffer_no_tags 0 = Inr example_no_tags
   \<and> profileSpace (header example_no_tags) = ''RGB ''
   \<and> tags example_no_tags ''rXYZ'' = None
   \<and> profileOf example_no_tags = Inl (TypeError ''data'')"
  by (simp add: profileOf_no_tags parseIcc_no_tags)
     (simp add: example_no_tags_def example_icc_header_def)

lemma profileOf_Some:
  assumes "profileOf icc = Inr (Some p)"
  shows "\<exists>rc gc bc.
      curveOf_data (tags icc ''rTRC'') = Inr (Some rc) \<and> curveOf_data (tags icc ''gTRC'') = Inr (Some gc)
    \<and> curveOf_data (tags icc ''bTRC'') = Inr (Some bc)
    \<and> IccRgbProfile.trc p = [rc, gc, bc] \<and> rgbMatrix p = invertMat (xyzMatrix p)
    \<and> IccRgbProfile.serializable p = icc"
proof -
  have "new_IccRgbProfile icc = Inr (Some p)"
    using assms by (simp add: profileOf_def split: if_splits)
  then show ?thesis by (rule new_IccRgbProfile_Some)
qed

text \<open>
  C4. For every profile \<open>p\<close> that \<open>profileOf\<close> constructs, with the curves \<open>trc\<close> made from
  the tags \<open>rTRC\<close>, \<open>gTRC\<close>, \<open>bTRC\<close> in this order, and every XYZ input: \<open>fromXyz\<close> multiplies
  by the inverse matrix and applies the inverse of the red curve, \<open>trc[0]\<close>, to each of
  the three channels; the green and the blue curve do not enter the result.
\<close>

theorem IccRgbProfile_fromXyz_red_curve:
  assumes "profileOf icc = Inr (Some p)"
  shows "\<exists>rCurve gCurve bCurve.
      curveOf_data (tags icc ''rTRC'') = Inr (Some rCurve)
    \<and> curveOf_data (tags icc ''gTRC'') = Inr (Some gCurve)
    \<and> curveOf_data (tags icc ''bTRC'') = Inr (Some bCurve)
    \<and> IccRgbProfile.trc p = [rCurve, gCurve, bCurve]
    \<and> IccRgbProfile_fromXyz p v h =
        map_option (\<lambda>M. [applyInverse rCurve (x (matMulMV M (x v) (y v) (z v))),
                          applyInverse rCurve (y (matMulMV M (x v) (y v) (z v))),
                          applyInverse rCurve (z (matMulMV M (x v) (y v) (z v)))])
          (rgbMatrix p)"
proof -
  from profileOf_Some [OF assms] obtain rCurve gCurve bCurve where
    t: "curveOf_data (tags icc ''rTRC'') = Inr (Some rCurve)"
       "curveOf_data (tags icc ''gTRC'') = Inr (Some gCurve)"
       "curveOf_data (tags icc ''bTRC'') = Inr (Some bCurve)"
       "IccRgbProfile.trc p = [rCurve, gCurve, bCurve]"
    by blast
  have "IccRgbProfile_fromXyz p v h =
        map_option (\<lambda>M. [applyInverse rCurve (x (matMulMV M (x v) (y v) (z v))),
                          applyInverse rCurve (y (matMulMV M (x v) (y v) (z v))),
                          applyInverse rCurve (z (matMulMV M (x v) (y v) (z v)))])
          (rgbMatrix p)"
    by (simp add: IccRgbProfile_fromXyz_def Let_def t(4) split: option.splits)
  with t show ?thesis by blast
qed

lemma curveOf_examples:
  "curveOf [0, 0xFFFF] = Lut [0, 1]" "curveOf [] = Identity" "curveOf [0x0200] = Gamma 2"
  by (simp_all add: curveOf_def Let_def sar_def band_def)

lemma curveOf_data_examples:
  "curveOf_data (tags example_icc ''rTRC'') = Inr (Some (Lut [0, 1]))"
  "curveOf_data (tags example_icc ''gTRC'') = Inr (Some Identity)"
  "curveOf_data (tags example_icc ''bTRC'') = Inr (Some (Gamma 2))"
  by (simp_all add: curveOf_data_def example_icc_def example_tags_def curveOf_examples)

lemma profileOf_example: "profileOf example_icc = Inr (Some example_profile)"
proof -
  have v: "values_0 (tags example_icc ''rXYZ'') = Inr (XyzValue \<lparr>x = 1, y = 0, z = 0\<rparr>)"
    "values_0 (tags example_icc ''gXYZ'') = Inr (XyzValue \<lparr>x = 0, y = 1, z = 0\<rparr>)"
    "values_0 (tags example_icc ''bXYZ'') = Inr (XyzValue \<lparr>x = 0, y = 0, z = 1\<rparr>)"
    by (simp_all add: values_0_def example_icc_def example_tags_def index_def)
  have h: "profileSpace (header example_icc) = ColorSpace_RGB"
    by (simp add: example_icc_def example_icc_header_def ColorSpace_RGB_def)
  show ?thesis
    by (simp add: profileOf_def h new_IccRgbProfile_def v curveOf_data_examples
        invertMat_def det3_def Let_def example_profile_def)
qed

lemma applyInverse_Lut01_half: "applyInverse (Lut [0, 1]) (1 / 2) = Some 1"
  using applyInverse_Lut_miss [of "[0, 1]" "1 / 2"] by simp

theorem IccRgbProfile_fromXyz_red_curve_witness:
  "parseIcc example_buffer_rgb 0 = Inr example_icc
   \<and> profileOf example_icc = Inr (Some example_profile)
   \<and> IccRgbProfile_fromXyz example_profile \<lparr>x = 1 / 2, y = 1 / 2, z = 1 / 2\<rparr> None
       = Some [Some 1, Some 1, Some 1]
   \<and> applyInverse (IccRgbProfile.trc example_profile ! 1) (1 / 2) = Some (1 / 2)"
proof -
  from IccRgbProfile_fromXyz_red_curve [OF profileOf_example,
      of "\<lparr>x = 1 / 2, y = 1 / 2, z = 1 / 2\<rparr>" None]
  obtain rCurve where r: "curveOf_data (tags example_icc ''rTRC'') = Inr (Some rCurve)"
    and f: "IccRgbProfile_fromXyz example_profile \<lparr>x = 1 / 2, y = 1 / 2, z = 1 / 2\<rparr> None =
        map_option (\<lambda>M. [applyInverse rCurve (x (matMulMV M (1 / 2) (1 / 2) (1 / 2))),
                          applyInverse rCurve (y (matMulMV M (1 / 2) (1 / 2) (1 / 2))),
                          applyInverse rCurve (z (matMulMV M (1 / 2) (1 / 2) (1 / 2)))])
          (rgbMatrix example_profile)"
    by auto
  have "rCurve = Lut [0, 1]"
    using r by (simp add: curveOf_data_examples)
  then have "IccRgbProfile_fromXyz example_profile \<lparr>x = 1 / 2, y = 1 / 2, z = 1 / 2\<rparr> None
       = Some [Some 1, Some 1, Some 1]"
    unfolding f
    by (simp add: example_profile_def matMulMV_def applyInverse_Lut01_half)
  moreover have "applyInverse (IccRgbProfile.trc example_profile ! 1) (1 / 2) = Some (1 / 2)"
    by (simp add: example_profile_def applyInverse_def)
  ultimately show ?thesis using parseIcc_rgb profileOf_example by simp
qed

text \<open>
  C10. \<open>toXyz\<close> and \<open>fromXyz\<close> of an ICC RGB profile do not depend on the \<open>hdr\<close> argument
  (given, as \<open>true\<close> or \<open>false\<close>, or left out), for every profile, colour and XYZ value; the
  literal RGB profile does depend on it: the white of sRGB has another image with
  \<open>hdr\<close> than without.
\<close>

theorem IccRgbProfile_ignores_hdr:
  "IccRgbProfile_toXyz p c h = IccRgbProfile_toXyz p c h'
   \<and> IccRgbProfile_fromXyz p v h = IccRgbProfile_fromXyz p v h'
   \<and> RgbProfile_toXyz (new_RgbProfile srgb) \<lparr>RgbColor.r = 1, RgbColor.g = 1, RgbColor.b = 1\<rparr> (Some True)
       \<noteq> RgbProfile_toXyz (new_RgbProfile srgb) \<lparr>RgbColor.r = 1, RgbColor.g = 1, RgbColor.b = 1\<rparr> (Some False)"
  by (simp add: IccRgbProfile_toXyz_def IccRgbProfile_fromXyz_def srgb_toXyz_white hdr_or_default_def)

end
